theory Spec2Isabelle
  imports Complex_Main
begin

section \<open>Portrait generation pipeline: a shallow embedding\<close>

text \<open>
  The TypeScript sources are embedded function by function. Conventions:
  \<^item> a JavaScript number that holds a time stamp in milliseconds, a byte count or a pixel
    count is an \<open>int\<close>; a number that takes part in a division or a product with a
    decimal fraction (font size, opacity, padding, coordinates, cost) is a \<open>rat\<close>;
  \<^item> an optional property (\<open>f?: T\<close>, or a value that may be \<open>undefined\<close>/\<open>null\<close>) is an
    \<open>option\<close>;
  \<^item> field \<open>f\<close> of interface \<open>I\<close> is written \<open>x_f\<close>, where \<open>x\<close> abbreviates \<open>I\<close>, because
    the interfaces share most of their field names;
  \<^item> a \<open>throw\<close> is the \<open>Inl\<close> of a sum, carrying the message of the \<open>Error\<close>;
  \<^item> module state (the rate-limit table, the number of provider calls) is passed in and
    returned;
  \<^item> every reading of \<open>Date.now()\<close> and every call of a library outside the repository
    (the image library, the provider SDK, \<open>Buffer\<close>) is a parameter.
\<close>

subsection \<open>JavaScript helpers\<close>

text \<open>Truthiness of a possibly missing string: \<open>undefined\<close> and \<open>''\<close> are falsy.\<close>

definition truthy :: "string option \<Rightarrow> bool" where
  "truthy s = (case s of None \<Rightarrow> False | Some v \<Rightarrow> v \<noteq> [])"

text \<open>\<open>a || b\<close> on strings.\<close>

definition orElse :: "string option \<Rightarrow> string \<Rightarrow> string" where
  "orElse s d = (case s of None \<Rightarrow> d | Some v \<Rightarrow> if v = [] then d else v)"

definition isSpace :: "char \<Rightarrow> bool" where
  "isSpace c = (c = CHR '' '' \<or> c = CHR 0x09 \<or> c = CHR 0x0A \<or> c = CHR 0x0B
                \<or> c = CHR 0x0C \<or> c = CHR 0x0D)"

text \<open>\<open>String.prototype.trim\<close>, on the ASCII white space.\<close>

definition trim :: "string \<Rightarrow> string" where
  "trim s = rev (dropWhile isSpace (rev (dropWhile isSpace s)))"

text \<open>\<open>s.startsWith(p)\<close> and \<open>s.includes(p)\<close>.\<close>

fun startsWith :: "string \<Rightarrow> string \<Rightarrow> bool" where
  "startsWith s [] = True"
| "startsWith [] (p # ps) = False"
| "startsWith (c # cs) (p # ps) = (c = p \<and> startsWith cs ps)"

fun includesStr :: "string \<Rightarrow> string \<Rightarrow> bool" where
  "includesStr [] p = (p = [])"
| "includesStr (c # cs) p = (startsWith (c # cs) p \<or> includesStr cs p)"

text \<open>\<open>xs.join(sep)\<close>.\<close>

fun join :: "string \<Rightarrow> string list \<Rightarrow> string" where
  "join sep [] = []"
| "join sep [x] = x"
| "join sep (x # y # ys) = x @ sep @ join sep (y # ys)"

text \<open>Decimal rendering of a non-negative integer, as a template literal prints it.\<close>

definition digit :: "nat \<Rightarrow> char" where
  "digit d = char_of (48 + d)"

fun showNat :: "nat \<Rightarrow> string" where
  "showNat n = (if n < 10 then [digit n] else showNat (n div 10) @ [digit (n mod 10)])"

declare showNat.simps [simp del]

definition showInt :: "int \<Rightarrow> string" where
  "showInt i = (if i < 0 then CHR ''-'' # showNat (nat (- i)) else showNat (nat i))"

text \<open>
  A thrown value is an \<open>Error\<close> with its message or something else; \<open>messageOr t d\<close> is
  \<open>t instanceof Error ? t.message : d\<close>.
\<close>

datatype thrown = JsError string | NonError

definition messageOr :: "thrown \<Rightarrow> string \<Rightarrow> string" where
  "messageOr t d = (case t of JsError m \<Rightarrow> m | NonError \<Rightarrow> d)"

subsection \<open>Constants (\<open>constants.ts\<close>)\<close>

definition PREVIEW_SIZE :: int where "PREVIEW_SIZE = 512"
definition FULL_SIZE :: int where "FULL_SIZE = 2048"
definition PREVIEW_COST :: rat where "PREVIEW_COST = 39 / 1000"
definition FULL_COST :: rat where "FULL_COST = 39 / 1000"
definition MAX_ATTEMPTS_PER_IP :: int where "MAX_ATTEMPTS_PER_IP = 3"
definition WINDOW_MS :: int where "WINDOW_MS = 24 * 60 * 60 * 1000"

subsection \<open>Requests\<close>

record Dimensions =
  d_width :: int
  d_height :: int

text \<open>
  The \<open>image\<close> object of the request body, as it arrives in the JSON. The properties that
  the handler tests for presence may be missing; the others are as the interface declares
  them.
\<close>

record ImageBody =
  ib_id :: "string option"
  ib_preview :: string
  ib_size :: int
  ib_type :: "string option"
  ib_dimensions :: Dimensions
  ib_uploadedAt :: string
  ib_base64Data :: "string option"

record CustomizationOptions =
  co_background :: "string option"
  co_style :: "string option"
  co_industry :: "string option"
  co_mood :: "string option"
  co_additionalRequirements :: "string list option"

record PreviewGenerationRequest =
  pr_image :: "ImageBody option"
  pr_options :: "CustomizationOptions option"
  pr_prompt :: "string option"
  pr_useCase :: "string option"

text \<open>
  A \<open>NextRequest\<close>: its headers (keys in lower case, as \<open>Headers.get\<close> compares them) and
  the outcome of \<open>request.json()\<close>, which throws on a body that is not JSON.
\<close>

record NextRequest =
  rq_headers :: "string \<rightharpoonup> string"
  rq_json :: "thrown + PreviewGenerationRequest"

subsection \<open>Rate limiter (\<open>rate-limit.ts\<close>)\<close>

record RateLimitResult =
  rr_allowed :: bool
  rr_remaining :: int
  rr_resetTime :: int
  rr_retryAfter :: "int option"

record RateLimitEntry =
  re_count :: int
  re_resetTime :: int
  re_lastRequest :: int

type_synonym rateLimitStore = "string \<rightharpoonup> RateLimitEntry"

definition getClientIP :: "NextRequest \<Rightarrow> string" where
  "getClientIP request =
     (let forwarded = rq_headers request ''x-forwarded-for'';
          realIP = rq_headers request ''x-real-ip'';
          remoteAddr = rq_headers request ''x-remote-addr''
      in if truthy forwarded then trim (takeWhile (\<lambda>c. c \<noteq> CHR '','') (orElse forwarded []))
         else orElse realIP (orElse remoteAddr ''unknown''))"

definition cleanupExpiredEntries :: "int \<Rightarrow> rateLimitStore \<Rightarrow> rateLimitStore" where
  "cleanupExpiredEntries now store =
     (\<lambda>ip. case store ip of
              None \<Rightarrow> None
            | Some entry \<Rightarrow> if now > re_resetTime entry then None else Some entry)"

text \<open>
  \<open>isDevelopment\<close>, \<open>windowMs\<close> and \<open>maxAttempts\<close> are the first three locals of
  \<open>checkRateLimit\<close>; \<open>nodeEnv\<close> is \<open>process.env.NODE_ENV\<close>.
\<close>

definition isDevelopment :: "string option \<Rightarrow> bool" where
  "isDevelopment nodeEnv = (nodeEnv = Some ''development'')"

definition windowMs :: "string option \<Rightarrow> int" where
  "windowMs nodeEnv = (if isDevelopment nodeEnv then 60 * 60 * 1000 else WINDOW_MS)"

definition maxAttempts :: "string option \<Rightarrow> int" where
  "maxAttempts nodeEnv = (if isDevelopment nodeEnv then 50 else MAX_ATTEMPTS_PER_IP)"

text \<open>
  \<open>checkRateLimit\<close> reads the clock once itself (\<open>now\<close>) and once more inside
  \<open>cleanupExpiredEntries\<close> (\<open>nowCleanup\<close>). On the denied branch it returns before the
  table is written and before the sweep.
\<close>

definition checkRateLimit ::
  "string option \<Rightarrow> int \<Rightarrow> int \<Rightarrow> rateLimitStore \<Rightarrow> NextRequest
     \<Rightarrow> RateLimitResult \<times> rateLimitStore" where
  "checkRateLimit nodeEnv now nowCleanup store request =
     (let clientIP = getClientIP request;
          fresh = \<lparr>re_count = 0, re_resetTime = now + windowMs nodeEnv, re_lastRequest = now\<rparr>;
          entry = (case store clientIP of
                     None \<Rightarrow> fresh
                   | Some e \<Rightarrow> if now > re_resetTime e then fresh else e)
      in if re_count entry \<ge> maxAttempts nodeEnv then
           (\<lparr>rr_allowed = False, rr_remaining = 0, rr_resetTime = re_resetTime entry,
             rr_retryAfter = Some \<lceil>of_int (re_resetTime entry - now) / (1000 :: rat)\<rceil>\<rparr>,
            store)
         else
           (let entry' = entry\<lparr>re_count := re_count entry + 1, re_lastRequest := now\<rparr>;
                store' = cleanupExpiredEntries nowCleanup (store(clientIP \<mapsto> entry'))
            in (\<lparr>rr_allowed = True, rr_remaining = maxAttempts nodeEnv - re_count entry',
                 rr_resetTime = re_resetTime entry', rr_retryAfter = None\<rparr>,
                store')))"

text \<open>
  Successive calls of \<open>checkRateLimit\<close> by one request, each with its two clock readings;
  the results are returned in call order.
\<close>

fun successiveChecks ::
  "string option \<Rightarrow> NextRequest \<Rightarrow> rateLimitStore \<Rightarrow> (int \<times> int) list
     \<Rightarrow> RateLimitResult list \<times> rateLimitStore" where
  "successiveChecks nodeEnv request store [] = ([], store)"
| "successiveChecks nodeEnv request store ((now, nowCleanup) # clocks) =
     (let (r, store') = checkRateLimit nodeEnv now nowCleanup store request;
          (rs, store'') = successiveChecks nodeEnv request store' clocks
      in (r # rs, store''))"

subsection \<open>JavaScript numbers\<close>

text \<open>
  The result of a JavaScript division: a finite value (kept exact, the rounding of doubles
  is not modelled), an infinity or \<open>NaN\<close>; every comparison with \<open>NaN\<close> is false.
\<close>

datatype jsnum = Fin rat | PosInf | NegInf | NaN

definition jsDivide :: "rat \<Rightarrow> rat \<Rightarrow> jsnum" where
  "jsDivide a b =
     (if b = 0 then (if a > 0 then PosInf else if a < 0 then NegInf else NaN)
      else Fin (a / b))"

fun jsLess :: "jsnum \<Rightarrow> rat \<Rightarrow> bool" where
  "jsLess (Fin x) y = (x < y)"
| "jsLess NegInf y = True"
| "jsLess PosInf y = False"
| "jsLess NaN y = False"

fun jsGreater :: "jsnum \<Rightarrow> rat \<Rightarrow> bool" where
  "jsGreater (Fin x) y = (x > y)"
| "jsGreater PosInf y = True"
| "jsGreater NegInf y = False"
| "jsGreater NaN y = False"

text \<open>\<open>Math.abs(x - 1) > 0.1\<close> for a quotient \<open>x\<close>.\<close>

fun jsFarFromOne :: "jsnum \<Rightarrow> bool" where
  "jsFarFromOne (Fin x) = (\<bar>x - 1\<bar> > 1 / 10)"
| "jsFarFromOne PosInf = True"
| "jsFarFromOne NegInf = True"
| "jsFarFromOne NaN = False"

text \<open>\<open>Math.round\<close>: to the nearest integer, halves upwards.\<close>

definition jsRound :: "rat \<Rightarrow> int" where
  "jsRound x = \<lfloor>x + 1 / 2\<rfloor>"

subsection \<open>AI utilities (\<open>ai-utils.ts\<close>)\<close>

datatype SizeClass = Preview | Full

text \<open>
  The file of an upload is its bytes; \<open>uploadedAt\<close> is kept as the string it is parsed
  from.
\<close>

type_synonym buffer = "nat list"

record File =
  f_bytes :: buffer
  f_name :: string
  f_type :: string

record UploadedImage =
  ui_id :: string
  ui_file :: File
  ui_preview :: string
  ui_size :: int
  ui_type :: string
  ui_dimensions :: Dimensions
  ui_uploadedAt :: string
  ui_base64Data :: "string option"

record ValidationResult =
  vr_isValid :: bool
  vr_errors :: "string list"
  vr_warnings :: "string list"

record AIGenerationMetrics =
  m_startTime :: int
  m_endTime :: int
  m_duration :: int
  m_tokensUsed :: "int option"
  m_cost :: rat
  m_model :: string
  m_size :: SizeClass

definition validateImageForAI :: "UploadedImage \<Rightarrow> ValidationResult" where
  "validateImageForAI img =
     (let dims = ui_dimensions img;
          maxSize = 10 * 1024 * 1024;
          aspectRatio = jsDivide (of_int (d_width dims)) (of_int (d_height dims));
          errors =
            (if d_width dims < PREVIEW_SIZE
             then [''Image width must be at least '' @ showInt PREVIEW_SIZE @ ''px''] else [])
            @ (if d_height dims < PREVIEW_SIZE
               then [''Image height must be at least '' @ showInt PREVIEW_SIZE @ ''px''] else [])
            @ (if ui_size img > maxSize
               then [''Image size must be less than ''
                      @ showInt (jsRound (of_int maxSize / 1024 / 1024)) @ ''MB''] else []);
          warnings =
            (if jsLess aspectRatio (1 / 2) \<or> jsGreater aspectRatio 2
             then [''Extreme aspect ratio may affect generation quality''] else [])
            @ (if d_width dims < FULL_SIZE \<or> d_height dims < FULL_SIZE
               then [''Image resolution may be insufficient for full-size generation'']
               else [])
      in \<lparr>vr_isValid = (errors = []), vr_errors = errors, vr_warnings = warnings\<rparr>)"

definition getOptimalGenerationSize :: "UploadedImage \<Rightarrow> SizeClass" where
  "getOptimalGenerationSize img =
     (let minDimension = min (d_width (ui_dimensions img)) (d_height (ui_dimensions img))
      in if minDimension \<ge> FULL_SIZE then Full else Preview)"

definition validateGenerationRequest ::
  "UploadedImage \<Rightarrow> CustomizationOptions \<Rightarrow> SizeClass \<Rightarrow> ValidationResult" where
  "validateGenerationRequest img options sizeClass =
     (let imageValidation = validateImageForAI img;
          errors = vr_errors imageValidation;
          minDimension = min (d_width (ui_dimensions img)) (d_height (ui_dimensions img));
          warnings = vr_warnings imageValidation
            @ (if \<not> truthy (co_background options)
               then [''No background specified, using default''] else [])
            @ (if \<not> truthy (co_style options)
               then [''No style specified, using default''] else [])
            @ (if sizeClass = Full \<and> minDimension < FULL_SIZE
               then [''Image may not be suitable for full-resolution generation''] else [])
      in \<lparr>vr_isValid = (errors = []), vr_errors = errors, vr_warnings = warnings\<rparr>)"

text \<open>\<open>ErrorUtils\<close>: the argument is the \<open>message\<close> property of the error, if it has one.\<close>

record ParsedError =
  pe_code :: string
  pe_message :: string
  pe_retryable :: bool

definition messageIncludes :: "string option \<Rightarrow> string \<Rightarrow> bool" where
  "messageIncludes message p = (case message of None \<Rightarrow> False | Some m \<Rightarrow> includesStr m p)"

definition parseAIError :: "string option \<Rightarrow> ParsedError" where
  "parseAIError message =
     (if messageIncludes message ''API key'' then
        \<lparr>pe_code = ''INVALID_API_KEY'', pe_message = ''Invalid or missing API key'',
         pe_retryable = False\<rparr>
      else if messageIncludes message ''quota'' then
        \<lparr>pe_code = ''QUOTA_EXCEEDED'', pe_message = ''API quota exceeded'',
         pe_retryable = True\<rparr>
      else if messageIncludes message ''timeout'' then
        \<lparr>pe_code = ''TIMEOUT'', pe_message = ''Request timed out'', pe_retryable = True\<rparr>
      else if messageIncludes message ''rate limit'' then
        \<lparr>pe_code = ''RATE_LIMITED'', pe_message = ''Rate limit exceeded'',
         pe_retryable = True\<rparr>
      else
        \<lparr>pe_code = ''UNKNOWN_ERROR'', pe_message = orElse message ''Unknown error occurred'',
         pe_retryable = True\<rparr>)"

definition isRetryableError :: "string option \<Rightarrow> bool" where
  "isRetryableError message = pe_retryable (parseAIError message)"

definition userMessages :: "string \<rightharpoonup> string" where
  "userMessages =
     [''INVALID_API_KEY'' \<mapsto>
        ''There was a problem with the AI service configuration. Please try again later.'',
      ''QUOTA_EXCEEDED'' \<mapsto>
        ''The AI service is temporarily unavailable. Please try again in a few minutes.'',
      ''TIMEOUT'' \<mapsto> ''The request took too long to process. Please try again.'',
      ''RATE_LIMITED'' \<mapsto> ''Too many requests. Please wait a moment and try again.'',
      ''UNKNOWN_ERROR'' \<mapsto>
        ''Something went wrong while generating your portrait. Please try again.'']"

definition getUserFriendlyMessage :: "string option \<Rightarrow> string" where
  "getUserFriendlyMessage message =
     orElse (userMessages (pe_code (parseAIError message)))
       ''Something went wrong while generating your portrait. Please try again.''"

definition createMetrics :: "int \<Rightarrow> int \<Rightarrow> string \<Rightarrow> SizeClass \<Rightarrow> AIGenerationMetrics" where
  "createMetrics startTime endTime model sizeClass =
     \<lparr>m_startTime = startTime, m_endTime = endTime, m_duration = endTime - startTime,
      m_tokensUsed = None,
      m_cost = (if sizeClass = Preview then PREVIEW_COST else FULL_COST),
      m_model = model, m_size = sizeClass\<rparr>"

subsection \<open>Prompt builder (\<open>prompt-builder.ts\<close>)\<close>

text \<open>
  A prompt is either a string supplied by the caller or one of the templates of the source
  with the values interpolated into it, in their order of appearance. The fixed text of a
  template is not reproduced: it is named. A template is never the empty string.
\<close>

datatype Prompt = Literal string | Template string "string list"

fun truthyPrompt :: "Prompt option \<Rightarrow> bool" where
  "truthyPrompt None = False"
| "truthyPrompt (Some (Literal p)) = (p \<noteq> [])"
| "truthyPrompt (Some (Template name values)) = True"

record StyleDescription =
  sd_attire :: string
  sd_expression :: string
  sd_styling :: string
  sd_posture :: string

record BackgroundDescription =
  bd_setting :: string
  bd_elements :: string
  bd_lighting :: string
  bd_mood :: string

record PromptContext =
  pc_style :: string
  pc_background :: string
  pc_industry :: "string option"
  pc_mood :: "string option"
  pc_lighting :: "string option"
  pc_composition :: "string option"
  pc_additionalRequirements :: "string list option"

text \<open>\<open>Partial<PromptContext>\<close>, as \<open>buildPrompt\<close> receives it.\<close>

record PartialPromptContext =
  pp_industry :: "string option"
  pp_mood :: "string option"
  pp_lighting :: "string option"
  pp_composition :: "string option"
  pp_additionalRequirements :: "string list option"

record PromptVariations =
  pv_basic :: Prompt
  pv_detailed :: Prompt
  pv_technical :: Prompt
  pv_creative :: Prompt

text \<open>The three tables, by their own keys.\<close>

definition STYLE_DESCRIPTIONS :: "string \<rightharpoonup> StyleDescription" where
  "STYLE_DESCRIPTIONS =
     [''professional'' \<mapsto>
        \<lparr>sd_attire = ''professional business attire'',
         sd_expression = ''confident, approachable expression'',
         sd_styling = ''clean, polished look with modern styling'',
         sd_posture = ''upright, professional posture''\<rparr>,
      ''casual'' \<mapsto>
        \<lparr>sd_attire = ''smart casual attire'',
         sd_expression = ''friendly, approachable expression'',
         sd_styling = ''modern, relaxed professional styling'',
         sd_posture = ''natural, comfortable posture''\<rparr>,
      ''executive'' \<mapsto>
        \<lparr>sd_attire = ''executive-level professional attire'',
         sd_expression = ''authoritative, confident expression'',
         sd_styling = ''sophisticated, high-end professional styling'',
         sd_posture = ''commanding, authoritative posture''\<rparr>,
      ''creative'' \<mapsto>
        \<lparr>sd_attire = ''creative professional attire'',
         sd_expression = ''innovative, artistic expression'',
         sd_styling = ''contemporary, creative professional styling'',
         sd_posture = ''dynamic, creative posture''\<rparr>]"

definition BACKGROUND_DESCRIPTIONS :: "string \<rightharpoonup> BackgroundDescription" where
  "BACKGROUND_DESCRIPTIONS =
     [''office'' \<mapsto>
        \<lparr>bd_setting = ''professional office setting'',
         bd_elements = ''modern furniture, clean lines, corporate environment'',
         bd_lighting = ''professional office lighting with natural light'',
         bd_mood = ''business-focused, productive atmosphere''\<rparr>,
      ''studio'' \<mapsto>
        \<lparr>bd_setting = ''clean, minimalist studio background'',
         bd_elements = ''neutral backdrop, professional studio setup'',
         bd_lighting = ''soft, even studio lighting'',
         bd_mood = ''clean, professional, focused''\<rparr>,
      ''outdoor'' \<mapsto>
        \<lparr>bd_setting = ''outdoor professional setting'',
         bd_elements = ''natural environment, architectural elements'',
         bd_lighting = ''natural lighting with professional quality'',
         bd_mood = ''fresh, approachable, natural''\<rparr>,
      ''conference'' \<mapsto>
        \<lparr>bd_setting = ''conference room with modern corporate environment'',
         bd_elements = ''meeting room furniture, presentation equipment'',
         bd_lighting = ''professional conference room lighting'',
         bd_mood = ''collaborative, professional, meeting-ready''\<rparr>]"

definition INDUSTRY_CONTEXTS :: "string \<rightharpoonup> string" where
  "INDUSTRY_CONTEXTS =
     [''technology'' \<mapsto> ''tech industry professional, innovative, modern'',
      ''finance'' \<mapsto> ''financial services professional, trustworthy, analytical'',
      ''healthcare'' \<mapsto> ''healthcare professional, caring, knowledgeable'',
      ''legal'' \<mapsto> ''legal professional, authoritative, trustworthy'',
      ''education'' \<mapsto> ''educational professional, approachable, knowledgeable'',
      ''consulting'' \<mapsto> ''consulting professional, analytical, strategic'',
      ''marketing'' \<mapsto> ''marketing professional, creative, dynamic'',
      ''sales'' \<mapsto> ''sales professional, confident, persuasive'',
      ''general'' \<mapsto> ''business professional, versatile, competent'']"

text \<open>A value printed by a template literal: \<open>undefined\<close> prints as such.\<close>

definition printed :: "string option \<Rightarrow> string" where
  "printed v = (case v of None \<Rightarrow> ''undefined'' | Some x \<Rightarrow> x)"

text \<open>Reading a property of \<open>undefined\<close> throws a \<open>TypeError\<close>.\<close>

definition cannotRead :: "string \<Rightarrow> thrown" where
  "cannotRead property =
     JsError (''Cannot read properties of undefined (reading '' @ [CHR 0x27] @ property
              @ [CHR 0x27] @ '')'')"

definition buildContext :: "CustomizationOptions \<Rightarrow> PartialPromptContext \<Rightarrow> PromptContext" where
  "buildContext options context =
     \<lparr>pc_style = orElse (co_style options) ''professional'',
      pc_background = orElse (co_background options) ''office'',
      pc_industry = Some (orElse (pp_industry context) ''general''),
      pc_mood = Some (orElse (pp_mood context) ''confident''),
      pc_lighting = Some (orElse (pp_lighting context) ''professional''),
      pc_composition = Some (orElse (pp_composition context) ''head-and-shoulders''),
      pc_additionalRequirements =
        Some (case pp_additionalRequirements context of None \<Rightarrow> [] | Some rs \<Rightarrow> rs)\<rparr>"

definition buildBasicPrompt :: "PromptContext \<Rightarrow> thrown + Prompt" where
  "buildBasicPrompt context =
     (let industry = INDUSTRY_CONTEXTS (orElse (pc_industry context) ''general'')
      in case STYLE_DESCRIPTIONS (pc_style context) of
           None \<Rightarrow> Inl (cannotRead ''attire'')
         | Some styleDesc \<Rightarrow>
             (case BACKGROUND_DESCRIPTIONS (pc_background context) of
                None \<Rightarrow> Inl (cannotRead ''setting'')
              | Some bgDesc \<Rightarrow>
                  Inr (Template ''basic''
                    [sd_attire styleDesc, sd_expression styleDesc,
                     bd_setting bgDesc, bd_lighting bgDesc, printed industry])))"

definition additionalRequirementsText :: "string list option \<Rightarrow> string" where
  "additionalRequirementsText rs =
     (case rs of
        None \<Rightarrow> []
      | Some xs \<Rightarrow>
          if xs = [] then []
          else ''ADDITIONAL REQUIREMENTS:'' @ [CHR 0x0A] @ ''- ''
               @ join ([CHR 0x0A] @ ''- '') xs)"

definition buildDetailedPrompt :: "PromptContext \<Rightarrow> thrown + Prompt" where
  "buildDetailedPrompt context =
     (let industry = INDUSTRY_CONTEXTS (orElse (pc_industry context) ''general'')
      in case STYLE_DESCRIPTIONS (pc_style context) of
           None \<Rightarrow> Inl (cannotRead ''attire'')
         | Some styleDesc \<Rightarrow>
             (case BACKGROUND_DESCRIPTIONS (pc_background context) of
                None \<Rightarrow> Inl (cannotRead ''setting'')
              | Some bgDesc \<Rightarrow>
                  Inr (Template ''detailed''
                    [sd_attire styleDesc, sd_styling styleDesc,
                     sd_expression styleDesc, sd_posture styleDesc,
                     bd_setting bgDesc, bd_elements bgDesc,
                     bd_lighting bgDesc, bd_mood bgDesc, printed industry,
                     printed (pc_composition context), printed (pc_mood context),
                     printed (pc_lighting context),
                     additionalRequirementsText (pc_additionalRequirements context)])))"

definition buildTechnicalPrompt :: "PromptContext \<Rightarrow> thrown + Prompt" where
  "buildTechnicalPrompt context =
     (case STYLE_DESCRIPTIONS (pc_style context) of
        None \<Rightarrow> Inl (cannotRead ''attire'')
      | Some styleDesc \<Rightarrow>
          (case BACKGROUND_DESCRIPTIONS (pc_background context) of
             None \<Rightarrow> Inl (cannotRead ''setting'')
           | Some bgDesc \<Rightarrow>
               Inr (Template ''technical''
                 [sd_attire styleDesc, sd_expression styleDesc,
                  sd_styling styleDesc, sd_posture styleDesc,
                  bd_setting bgDesc, bd_elements bgDesc, bd_lighting bgDesc, bd_mood bgDesc,
                  printed (pc_composition context),
                  orElse (pc_industry context) ''general business''])))"

definition buildCreativePrompt :: "PromptContext \<Rightarrow> thrown + Prompt" where
  "buildCreativePrompt context =
     (case STYLE_DESCRIPTIONS (pc_style context) of
        None \<Rightarrow> Inl (cannotRead ''attire'')
      | Some styleDesc \<Rightarrow>
          (case BACKGROUND_DESCRIPTIONS (pc_background context) of
             None \<Rightarrow> Inl (cannotRead ''setting'')
           | Some bgDesc \<Rightarrow>
               Inr (Template ''creative''
                 [sd_attire styleDesc, sd_expression styleDesc,
                  bd_setting bgDesc, bd_mood bgDesc, bd_lighting bgDesc,
                  printed (pc_mood context), orElse (pc_industry context) ''general''])))"

definition buildPrompt ::
  "CustomizationOptions \<Rightarrow> PartialPromptContext \<Rightarrow> thrown + PromptVariations" where
  "buildPrompt options context =
     (let fullContext = buildContext options context
      in case buildBasicPrompt fullContext of
           Inl t \<Rightarrow> Inl t
         | Inr basic \<Rightarrow>
        (case buildDetailedPrompt fullContext of
           Inl t \<Rightarrow> Inl t
         | Inr detailed \<Rightarrow>
        (case buildTechnicalPrompt fullContext of
           Inl t \<Rightarrow> Inl t
         | Inr technical \<Rightarrow>
        (case buildCreativePrompt fullContext of
           Inl t \<Rightarrow> Inl t
         | Inr creative \<Rightarrow>
             Inr \<lparr>pv_basic = basic, pv_detailed = detailed,
                  pv_technical = technical, pv_creative = creative\<rparr>))))"

record ContextValidation =
  cv_isValid :: bool
  cv_errors :: "string list"

definition validateContext :: "PromptContext \<Rightarrow> ContextValidation" where
  "validateContext context =
     (let errors =
            (if STYLE_DESCRIPTIONS (pc_style context) = None
             then [''Invalid style: '' @ pc_style context] else [])
            @ (if BACKGROUND_DESCRIPTIONS (pc_background context) = None
               then [''Invalid background: '' @ pc_background context] else [])
            @ (if truthy (pc_industry context)
                  \<and> INDUSTRY_CONTEXTS (orElse (pc_industry context) []) = None
               then [''Invalid industry: '' @ orElse (pc_industry context) []] else [])
      in \<lparr>cv_isValid = (errors = []), cv_errors = errors\<rparr>)"

subsection \<open>The environment and the module state\<close>

text \<open>The response of the provider SDK: \<open>candidates[0].content.parts[i].inlineData.data\<close>.\<close>

datatype InlineData = InlineData "string option"
datatype Part = Part "InlineData option"
datatype Content = Content "Part list option"
datatype Candidate = Candidate "Content option"
datatype SdkResponse = SdkResponse "Candidate list option"

record Blob =
  b_size :: int
  b_type :: string

text \<open>
  The overlay handed to the image library: the values that \<open>createWatermarkSvg\<close> prints into
  its SVG text. The backing rectangle is present when a background colour is.
\<close>

record SvgRect =
  sr_x :: rat
  sr_y :: rat
  sr_width :: rat
  sr_height :: rat
  sr_fill :: string
  sr_opacity :: rat

record Svg =
  sv_width :: int
  sv_height :: int
  sv_rect :: "SvgRect option"
  sv_textX :: rat
  sv_textY :: rat
  sv_fontSize :: rat
  sv_fill :: string
  sv_opacity :: rat
  sv_text :: string

text \<open>What \<open>sharp(buffer).metadata()\<close> resolves to, as far as it is read.\<close>

record SharpMetadata =
  sm_width :: "int option"
  sm_height :: "int option"

text \<open>
  Everything outside the repository. \<open>e_now k\<close> is the value of the \<open>k\<close>-th reading of
  \<open>Date.now()\<close>, \<open>e_generateContent k\<close> the outcome of the \<open>k\<close>-th call of the provider
  (model, prompt, image); \<open>e_sharpCompositePng buf svg top left\<close> is
  \<open>sharp(buf).composite([{input: svg, top, left}]).png().toBuffer()\<close>.
\<close>

record Env =
  e_nodeEnv :: "string option"
  e_DEV_MODE_SKIP_AI :: "string option"
  e_GEMINI_API_KEY :: "string option"
  e_now :: "nat \<Rightarrow> int"
  e_generateContent :: "nat \<Rightarrow> string \<Rightarrow> Prompt \<Rightarrow> string option \<Rightarrow> thrown + SdkResponse"
  e_hasWindow :: bool
  e_hasFileReader :: bool
  e_hasBuffer :: bool
  e_fromBase64 :: "string \<Rightarrow> buffer"
  e_toBase64 :: "buffer \<Rightarrow> string"
  e_atob :: "string \<Rightarrow> thrown + string"
  e_btoa :: "string \<Rightarrow> thrown + string"
  e_readAsDataURL :: "File \<Rightarrow> thrown + string"
  e_loadImage :: "Blob \<Rightarrow> Dimensions option"
  e_sharpMetadata :: "buffer \<Rightarrow> thrown + SharpMetadata"
  e_sharpCompositePng :: "buffer \<Rightarrow> Svg \<Rightarrow> rat \<Rightarrow> rat \<Rightarrow> thrown + buffer"

text \<open>
  The state of the process: the rate-limit table, the \<open>retryCount\<close> field of the service
  object, the number of provider calls made and the number of clock readings taken.
\<close>

record World =
  w_store :: rateLimitStore
  w_retryCount :: int
  w_providerCalls :: nat
  w_clock :: nat

subsection \<open>Configuration (\<open>env-validation.ts\<close>)\<close>

record AIServiceConfig =
  ac_apiKey :: "string option"
  ac_model :: string
  ac_maxRetries :: int
  ac_baseUrl :: string

definition getAIConfig :: "Env \<Rightarrow> AIServiceConfig" where
  "getAIConfig env =
     \<lparr>ac_apiKey = e_GEMINI_API_KEY env, ac_model = ''gemini-2.5-flash-image-preview'',
      ac_maxRetries = 0, ac_baseUrl = ''https://generativelanguage.googleapis.com/v1beta''\<rparr>"

text \<open>\<open>env.get('DEV_MODE_SKIP_AI')\<close>.\<close>

definition devModeSkipAI :: "Env \<Rightarrow> bool" where
  "devModeSkipAI env =
     (e_DEV_MODE_SKIP_AI env = Some ''true'' \<or> e_nodeEnv env = Some ''development'')"

subsection \<open>Generation client (\<open>ai-service.ts\<close>)\<close>

record GenerationRequest =
  gq_image :: UploadedImage
  gq_options :: CustomizationOptions
  gq_size :: SizeClass
  gq_prompt :: "Prompt option"

record GenerationResponse =
  gn_success :: bool
  gn_imageUrl :: "string option"
  gn_imageData :: "string option"
  gn_error :: "string option"
  gn_cost :: "rat option"
  gn_generationTime :: "int option"

definition backgroundDescriptions :: "string \<rightharpoonup> string" where
  "backgroundDescriptions =
     [''office'' \<mapsto> ''professional office setting with modern furniture and clean lighting'',
      ''studio'' \<mapsto> ''clean, minimalist studio background with soft lighting'',
      ''outdoor'' \<mapsto> ''outdoor professional setting with natural lighting'',
      ''conference'' \<mapsto> ''conference room with modern corporate environment'']"

definition styleDescriptions :: "string \<rightharpoonup> string" where
  "styleDescriptions =
     [''professional'' \<mapsto>
        ''professional business attire, confident expression, clean and polished look'',
      ''casual'' \<mapsto> ''smart casual attire, approachable expression, modern and friendly'',
      ''executive'' \<mapsto>
        ''executive-level professional attire, authoritative presence, sophisticated styling'',
      ''creative'' \<mapsto>
        ''creative professional attire, artistic expression, innovative and dynamic'']"

text \<open>The private \<open>buildPrompt\<close> of the service.\<close>

definition serviceBuildPrompt :: "CustomizationOptions \<Rightarrow> Prompt option \<Rightarrow> Prompt" where
  "serviceBuildPrompt options customPrompt =
     (let background = orElse (co_background options) ''office'';
          style = orElse (co_style options) ''professional'';
          built = Template ''service''
                    [printed (styleDescriptions style), printed (backgroundDescriptions background),
                     style, background]
      in if truthyPrompt customPrompt
         then (case customPrompt of Some p \<Rightarrow> p | None \<Rightarrow> built)
         else built)"

text \<open>\<open>s.split(',')[1]\<close>: the text between the first and the second comma, if any.\<close>

definition secondSegment :: "string \<Rightarrow> string option" where
  "secondSegment s =
     (case dropWhile (\<lambda>c. c \<noteq> CHR '','') s of
        [] \<Rightarrow> None
      | comma # rest \<Rightarrow> Some (takeWhile (\<lambda>c. c \<noteq> CHR '','') rest))"

text \<open>
  \<open>convertImageToBase64\<close>: with a \<open>FileReader\<close> the data URL is read and split; otherwise
  the bytes of the file (every \<open>File\<close> has \<open>arrayBuffer\<close>) are encoded.
\<close>

definition convertImageToBase64 :: "Env \<Rightarrow> File \<Rightarrow> thrown + string option" where
  "convertImageToBase64 env file =
     (if e_hasWindow env \<and> e_hasFileReader env then
        (case e_readAsDataURL env file of
           Inl t \<Rightarrow> Inl t
         | Inr result \<Rightarrow> Inr (secondSegment result))
      else Inr (Some (e_toBase64 env (f_bytes file))))"

text \<open>The image found in a provider response, if it has one.\<close>

fun hasInlineData :: "Part \<Rightarrow> bool" where
  "hasInlineData (Part None) = False"
| "hasInlineData (Part (Some d)) = True"

fun extractImageData :: "SdkResponse \<Rightarrow> string option" where
  "extractImageData (SdkResponse (Some (Candidate (Some (Content (Some parts))) # others))) =
     (case find hasInlineData parts of
        Some (Part (Some (InlineData (Some imageData)))) \<Rightarrow>
          (if imageData \<noteq> [] then Some imageData else None)
      | _ \<Rightarrow> None)"
| "extractImageData response = None"

text \<open>
  \<open>callGeminiAPI\<close>: one provider call. The \<open>throw\<close> for a response without an image sits
  inside the \<open>try\<close>, so it is wrapped like any failure of the SDK.
\<close>

definition callGeminiAPI ::
  "Env \<Rightarrow> World \<Rightarrow> Prompt \<Rightarrow> string option \<Rightarrow> string \<Rightarrow> (thrown + string) \<times> World" where
  "callGeminiAPI env w prompt img model =
     (let outcome = e_generateContent env (w_providerCalls w) model prompt img;
          w' = w\<lparr>w_providerCalls := w_providerCalls w + 1\<rparr>;
          tried = (case outcome of
                     Inl t \<Rightarrow> Inl t
                   | Inr response \<Rightarrow>
                       (case extractImageData response of
                          Some imageData \<Rightarrow> Inr imageData
                        | None \<Rightarrow> Inl (JsError ''No image generated in response'')))
      in (case tried of
            Inl t \<Rightarrow> Inl (JsError (''Failed to generate image: '' @ messageOr t ''Unknown error''))
          | Inr imageData \<Rightarrow> Inr imageData,
          w'))"

definition calculateCost :: "SizeClass \<Rightarrow> rat" where
  "calculateCost sizeClass = (if sizeClass = Preview then PREVIEW_COST else FULL_COST)"

text \<open>The image payload of a request: the attached one, or the converted file.\<close>

definition requestImageBase64 :: "Env \<Rightarrow> GenerationRequest \<Rightarrow> thrown + string option" where
  "requestImageBase64 env request =
     (if truthy (ui_base64Data (gq_image request)) then Inr (ui_base64Data (gq_image request))
      else convertImageToBase64 env (ui_file (gq_image request)))"

text \<open>
  The \<open>try\<close> block of \<open>generatePortrait\<close>, after \<open>retryCount\<close> has been reset: the response,
  or what was thrown.
\<close>

definition generateAttempt ::
  "Env \<Rightarrow> AIServiceConfig \<Rightarrow> World \<Rightarrow> GenerationRequest \<Rightarrow> int
     \<Rightarrow> (thrown + GenerationResponse) \<times> World" where
  "generateAttempt env cfg w request startTime =
     (if devModeSkipAI env then
        (case requestImageBase64 env request of
           Inl t \<Rightarrow> (Inl t, w)
         | Inr imageBase64 \<Rightarrow>
             (Inr \<lparr>gn_success = True, gn_imageUrl = None, gn_imageData = imageBase64,
                   gn_error = None, gn_cost = Some 0,
                   gn_generationTime = Some (e_now env (w_clock w) - startTime)\<rparr>,
              w\<lparr>w_clock := w_clock w + 1\<rparr>))
      else
        (let prompt = serviceBuildPrompt (gq_options request) (gq_prompt request)
         in case requestImageBase64 env request of
              Inl t \<Rightarrow> (Inl t, w)
            | Inr imageBase64 \<Rightarrow>
                (let called = callGeminiAPI env w prompt imageBase64 (ac_model cfg);
                     w' = snd called
                 in case fst called of
                      Inl t \<Rightarrow> (Inl t, w')
                    | Inr imageData \<Rightarrow>
                        (Inr \<lparr>gn_success = True, gn_imageUrl = None,
                              gn_imageData = Some imageData, gn_error = None,
                              gn_cost = Some (calculateCost (gq_size request)),
                              gn_generationTime = Some (e_now env (w_clock w') - startTime)\<rparr>,
                         w'\<lparr>w_clock := w_clock w' + 1\<rparr>))))"

text \<open>
  \<open>generatePortrait\<close>. The reset of \<open>retryCount\<close> is the first statement of the \<open>try\<close>
  block, so it runs again in every recursive call; the waiting between two attempts only
  moves the clock. A call that does not return has the value \<open>None\<close>.
\<close>

partial_function (option) generatePortrait ::
  "Env \<Rightarrow> AIServiceConfig \<Rightarrow> World \<Rightarrow> GenerationRequest
     \<Rightarrow> (GenerationResponse \<times> World) option" where
  "generatePortrait env cfg w request =
     (let startTime = e_now env (w_clock w);
          attempt = generateAttempt env cfg
                      (w\<lparr>w_clock := w_clock w + 1, w_retryCount := 0\<rparr>) request startTime;
          w' = snd attempt
      in case fst attempt of
           Inr response \<Rightarrow> Some (response, w')
         | Inl t \<Rightarrow>
             if w_retryCount w' < ac_maxRetries cfg
             then generatePortrait env cfg (w'\<lparr>w_retryCount := w_retryCount w' + 1\<rparr>) request
             else Some (\<lparr>gn_success = False, gn_imageUrl = None, gn_imageData = None,
                         gn_error = Some (messageOr t ''Failed to generate portrait''),
                         gn_cost = None, gn_generationTime = None\<rparr>, w'))"

subsection \<open>Response processor (\<open>ai-response-handler.ts\<close>)\<close>

datatype Quality = High | Medium | Low

record ValidationOptions =
  vo_minWidth :: "int option"
  vo_minHeight :: "int option"
  vo_maxFileSize :: "int option"
  vo_allowedFormats :: "string list option"
  vo_qualityThreshold :: "rat option"

text \<open>\<open>Omit<ResponseMetadata, 'quality'>\<close> and \<open>ResponseMetadata\<close>.\<close>

record MetadataCore =
  mc_model :: string
  mc_generationTime :: int
  mc_cost :: rat
  mc_size :: SizeClass
  mc_dimensions :: "Dimensions option"
  mc_format :: string
  mc_timestamp :: int

record ResponseMetadata =
  md_model :: string
  md_generationTime :: int
  md_cost :: rat
  md_size :: SizeClass
  md_quality :: Quality
  md_dimensions :: "Dimensions option"
  md_format :: string
  md_timestamp :: int

record ProcessedResponse =
  ps_success :: bool
  ps_imageData :: "string option"
  ps_imageUrl :: "string option"
  ps_metadata :: "ResponseMetadata option"
  ps_error :: "string option"
  ps_warnings :: "string list option"

record ImageValidation =
  iv_isValid :: bool
  iv_errors :: "string list"
  iv_warnings :: "string list"
  iv_dimensions :: "Dimensions option"

definition DEFAULT_VALIDATION :: ValidationOptions where
  "DEFAULT_VALIDATION =
     \<lparr>vo_minWidth = Some 512, vo_minHeight = Some 512,
      vo_maxFileSize = Some (10 * 1024 * 1024),
      vo_allowedFormats = Some [''image/jpeg'', ''image/png'', ''image/webp''],
      vo_qualityThreshold = Some (8 / 10)\<rparr>"

text \<open>\<open>{ ...base, ...given }\<close>: a property of \<open>given\<close> that is present wins.\<close>

definition spread :: "'a option \<Rightarrow> 'a option \<Rightarrow> 'a option" where
  "spread base given = (case given of None \<Rightarrow> base | Some v \<Rightarrow> Some v)"

definition mergeValidation :: "ValidationOptions \<Rightarrow> ValidationOptions \<Rightarrow> ValidationOptions" where
  "mergeValidation base given =
     \<lparr>vo_minWidth = spread (vo_minWidth base) (vo_minWidth given),
      vo_minHeight = spread (vo_minHeight base) (vo_minHeight given),
      vo_maxFileSize = spread (vo_maxFileSize base) (vo_maxFileSize given),
      vo_allowedFormats = spread (vo_allowedFormats base) (vo_allowedFormats given),
      vo_qualityThreshold = spread (vo_qualityThreshold base) (vo_qualityThreshold given)\<rparr>"

text \<open>Truthiness of a possibly missing number.\<close>

definition truthyNum :: "int option \<Rightarrow> bool" where
  "truthyNum n = (case n of None \<Rightarrow> False | Some v \<Rightarrow> v \<noteq> 0)"

definition numOr :: "int option \<Rightarrow> int \<Rightarrow> int" where
  "numOr n d = (case n of None \<Rightarrow> d | Some v \<Rightarrow> if v = 0 then d else v)"

definition isValidBase64 :: "Env \<Rightarrow> string \<Rightarrow> bool" where
  "isValidBase64 env str =
     (if e_hasBuffer env then e_toBase64 env (e_fromBase64 env str) = str
      else (case e_atob env str of
              Inl t \<Rightarrow> False
            | Inr binary \<Rightarrow>
                (case e_btoa env binary of Inl t \<Rightarrow> False | Inr again \<Rightarrow> again = str)))"

text \<open>\<open>base64ToBlob\<close> with its default MIME type.\<close>

definition base64ToBlob :: "Env \<Rightarrow> string \<Rightarrow> thrown + Blob" where
  "base64ToBlob env base64 =
     (if e_hasBuffer env
      then Inr \<lparr>b_size = int (length (e_fromBase64 env base64)), b_type = ''image/jpeg''\<rparr>
      else (case e_atob env base64 of
              Inl t \<Rightarrow> Inl t
            | Inr byteCharacters \<Rightarrow>
                Inr \<lparr>b_size = int (length byteCharacters), b_type = ''image/jpeg''\<rparr>))"

definition getImageDimensions :: "Env \<Rightarrow> Blob \<Rightarrow> Dimensions option" where
  "getImageDimensions env blob = (if \<not> e_hasWindow env then None else e_loadImage env blob)"

definition validateImageData :: "Env \<Rightarrow> string \<Rightarrow> ValidationOptions \<Rightarrow> ImageValidation" where
  "validateImageData env imageData options =
     (if \<not> isValidBase64 env imageData then
        \<lparr>iv_isValid = False, iv_errors = [''Invalid base64 image data''], iv_warnings = [],
         iv_dimensions = None\<rparr>
      else
        (case base64ToBlob env imageData of
           Inl t \<Rightarrow>
             \<lparr>iv_isValid = False,
              iv_errors = [''Validation error: '' @ messageOr t ''Unknown error''],
              iv_warnings = [], iv_dimensions = None\<rparr>
         | Inr blob \<Rightarrow>
             (let sizeErrors =
                    (if b_size blob > numOr (vo_maxFileSize options) (10 * 1024 * 1024)
                     then [''Image too large: ''
                            @ showInt (jsRound (of_int (b_size blob) / 1024 / 1024)) @ ''MB'']
                     else []);
                  formatErrors =
                    (case vo_allowedFormats options of
                       None \<Rightarrow> []
                     | Some formats \<Rightarrow>
                         if b_type blob \<notin> set formats
                         then [''Unsupported format: '' @ b_type blob] else []);
                  dimensions = getImageDimensions env blob;
                  dimensionErrors =
                    (case dimensions of
                       None \<Rightarrow> []
                     | Some dims \<Rightarrow>
                         (if truthyNum (vo_minWidth options)
                             \<and> d_width dims < numOr (vo_minWidth options) 0
                          then [''Width too small: '' @ showInt (d_width dims)
                                 @ ''px (minimum: '' @ showInt (numOr (vo_minWidth options) 0)
                                 @ ''px)'']
                          else [])
                         @ (if truthyNum (vo_minHeight options)
                               \<and> d_height dims < numOr (vo_minHeight options) 0
                            then [''Height too small: '' @ showInt (d_height dims)
                                   @ ''px (minimum: ''
                                   @ showInt (numOr (vo_minHeight options) 0) @ ''px)'']
                            else []));
                  warnings =
                    (case dimensions of
                       None \<Rightarrow> [''Could not determine image dimensions'']
                     | Some dims \<Rightarrow>
                         (let aspectRatio =
                                jsDivide (of_int (d_width dims)) (of_int (d_height dims))
                          in (if jsLess aspectRatio (1 / 2) \<or> jsGreater aspectRatio 2
                              then [''Unusual aspect ratio may affect display quality'']
                              else [])
                             @ (if jsFarFromOne aspectRatio
                                then [''Non-square image may not be optimal for portrait use'']
                                else [])));
                  errors = sizeErrors @ formatErrors @ dimensionErrors
              in \<lparr>iv_isValid = (errors = []), iv_errors = errors, iv_warnings = warnings,
                  iv_dimensions = dimensions\<rparr>)))"

definition extractMetadata ::
  "int \<Rightarrow> GenerationResponse \<Rightarrow> AIGenerationMetrics \<Rightarrow> ImageValidation \<Rightarrow> MetadataCore" where
  "extractMetadata now response metrics validation =
     \<lparr>mc_model = m_model metrics, mc_generationTime = m_duration metrics,
      mc_cost = m_cost metrics, mc_size = m_size metrics,
      mc_dimensions = iv_dimensions validation, mc_format = ''image/jpeg'',
      mc_timestamp = now\<rparr>"

definition assessQuality :: "MetadataCore \<Rightarrow> ValidationOptions \<Rightarrow> Quality" where
  "assessQuality metadata options =
     (let score = (0 :: int);
          score =
            (case mc_dimensions metadata of
               None \<Rightarrow> score
             | Some dims \<Rightarrow>
                 (let minDimension = min (d_width dims) (d_height dims)
                  in if minDimension \<ge> 2048 then score + 3
                     else if minDimension \<ge> 1024 then score + 2
                     else if minDimension \<ge> 512 then score + 1
                     else score));
          score = (if mc_generationTime metadata < 5000 then score + 2
                   else if mc_generationTime metadata < 15000 then score + 1
                   else score);
          score = (if mc_size metadata = Full then score + 2
                   else if mc_size metadata = Preview then score + 1
                   else score)
      in if score \<ge> 6 then High else if score \<ge> 3 then Medium else Low)"

text \<open>
  \<open>processResponse\<close>; \<open>now\<close> is the clock reading of \<open>extractMetadata\<close>. Nothing inside its
  \<open>try\<close> block throws: \<open>validateImageData\<close> catches for itself.
\<close>

definition processResponse ::
  "Env \<Rightarrow> int \<Rightarrow> GenerationResponse \<Rightarrow> AIGenerationMetrics \<Rightarrow> ValidationOptions
     \<Rightarrow> ProcessedResponse" where
  "processResponse env now response metrics validationOptions =
     (let options = mergeValidation DEFAULT_VALIDATION validationOptions
      in if \<not> gn_success response \<or> \<not> truthy (gn_imageData response) then
           \<lparr>ps_success = False, ps_imageData = None, ps_imageUrl = None, ps_metadata = None,
            ps_error = Some (orElse (gn_error response) ''No image data received''),
            ps_warnings = None\<rparr>
         else
           (let validation = validateImageData env (orElse (gn_imageData response) []) options
            in if \<not> iv_isValid validation then
                 \<lparr>ps_success = False, ps_imageData = None, ps_imageUrl = None,
                  ps_metadata = None,
                  ps_error = Some (''Image validation failed: ''
                                   @ join '', '' (iv_errors validation)),
                  ps_warnings = None\<rparr>
               else
                 (let warnings = iv_warnings validation;
                      metadata = extractMetadata now response metrics validation;
                      quality = assessQuality metadata options
                  in \<lparr>ps_success = True, ps_imageData = gn_imageData response,
                      ps_imageUrl = None,
                      ps_metadata = Some
                        \<lparr>md_model = mc_model metadata,
                         md_generationTime = mc_generationTime metadata,
                         md_cost = mc_cost metadata, md_size = mc_size metadata,
                         md_quality = quality, md_dimensions = mc_dimensions metadata,
                         md_format = mc_format metadata,
                         md_timestamp = mc_timestamp metadata\<rparr>,
                      ps_error = None,
                      ps_warnings = (if warnings \<noteq> [] then Some warnings else None)\<rparr>)))"

subsection \<open>Watermark compositor (\<open>watermark.ts\<close>)\<close>

datatype Position = BottomRight | BottomCenter | Center | TopRight

record WatermarkOptions =
  wo_text :: string
  wo_opacity :: rat
  wo_fontSize :: rat
  wo_fontFamily :: string
  wo_color :: string
  wo_backgroundColor :: "string option"
  wo_position :: Position
  wo_padding :: rat
  wo_pattern :: "bool option"

text \<open>\<open>Partial<WatermarkOptions>\<close>.\<close>

record PartialWatermarkOptions =
  po_text :: "string option"
  po_opacity :: "rat option"
  po_fontSize :: "rat option"
  po_fontFamily :: "string option"
  po_color :: "string option"
  po_backgroundColor :: "string option"
  po_position :: "Position option"
  po_padding :: "rat option"
  po_pattern :: "bool option"

record WatermarkResult =
  wr_success :: bool
  wr_imageData :: "string option"
  wr_error :: "string option"

record Point =
  pt_x :: rat
  pt_y :: rat

definition DEFAULT_OPTIONS :: WatermarkOptions where
  "DEFAULT_OPTIONS =
     \<lparr>wo_text = ''PREVIEW - Portrait Banana'', wo_opacity = 7 / 10, wo_fontSize = 24,
      wo_fontFamily = ''Arial, sans-serif'', wo_color = ''rgba(0, 0, 0, 0.8)'',
      wo_backgroundColor = Some ''rgba(255, 255, 255, 0.9)'', wo_position = BottomCenter,
      wo_padding = 20, wo_pattern = Some True\<rparr>"

definition given :: "'a \<Rightarrow> 'a option \<Rightarrow> 'a" where
  "given base v = (case v of None \<Rightarrow> base | Some x \<Rightarrow> x)"

text \<open>\<open>{ ...this.DEFAULT_OPTIONS, ...options }\<close>.\<close>

definition mergeOptions :: "WatermarkOptions \<Rightarrow> PartialWatermarkOptions \<Rightarrow> WatermarkOptions" where
  "mergeOptions base options =
     \<lparr>wo_text = given (wo_text base) (po_text options),
      wo_opacity = given (wo_opacity base) (po_opacity options),
      wo_fontSize = given (wo_fontSize base) (po_fontSize options),
      wo_fontFamily = given (wo_fontFamily base) (po_fontFamily options),
      wo_color = given (wo_color base) (po_color options),
      wo_backgroundColor = spread (wo_backgroundColor base) (po_backgroundColor options),
      wo_position = given (wo_position base) (po_position options),
      wo_padding = given (wo_padding base) (po_padding options),
      wo_pattern = spread (wo_pattern base) (po_pattern options)\<rparr>"

definition calculateServerPosition :: "rat \<Rightarrow> Position \<Rightarrow> rat \<Rightarrow> Point" where
  "calculateServerPosition imageSize position fontSize =
     (let padding = 20;
          textHeight = fontSize * (12 / 10)
      in case position of
           BottomCenter \<Rightarrow>
             \<lparr>pt_x = imageSize / 2, pt_y = imageSize - padding - textHeight / 2\<rparr>
         | BottomRight \<Rightarrow>
             \<lparr>pt_x = imageSize - padding, pt_y = imageSize - padding - textHeight / 2\<rparr>
         | TopRight \<Rightarrow>
             \<lparr>pt_x = imageSize - padding, pt_y = padding + textHeight / 2\<rparr>
         | Center \<Rightarrow>
             \<lparr>pt_x = imageSize / 2, pt_y = imageSize / 2\<rparr>)"

definition createWatermarkSvg :: "WatermarkOptions \<Rightarrow> int \<Rightarrow> int \<Rightarrow> Svg" where
  "createWatermarkSvg options imageWidth imageHeight =
     (let textWidth = of_nat (length (wo_text options)) * wo_fontSize options * (6 / 10);
          textHeight = wo_fontSize options * (12 / 10);
          pos = calculateServerPosition (of_int imageWidth) (wo_position options)
                  (wo_fontSize options)
      in \<lparr>sv_width = imageWidth, sv_height = imageHeight,
          sv_rect =
            (if truthy (wo_backgroundColor options) then
               Some \<lparr>sr_x = pt_x pos - textWidth / 2 - 10,
                     sr_y = pt_y pos - textHeight / 2 - 5,
                     sr_width = textWidth + 20, sr_height = textHeight + 10,
                     sr_fill = orElse (wo_backgroundColor options) [],
                     sr_opacity = wo_opacity options\<rparr>
             else None),
          sv_textX = pt_x pos, sv_textY = pt_y pos, sv_fontSize = wo_fontSize options,
          sv_fill = wo_color options, sv_opacity = wo_opacity options,
          sv_text = wo_text options\<rparr>)"

text \<open>\<open>imageData.replace(/^data:image\/[a-z]+;base64,/, '')\<close>.\<close>

definition isLower :: "char \<Rightarrow> bool" where
  "isLower c = (97 \<le> (of_char c :: nat) \<and> (of_char c :: nat) \<le> 122)"

definition stripDataUrlPrefix :: "string \<Rightarrow> string" where
  "stripDataUrlPrefix s =
     (if startsWith s ''data:image/'' then
        (let rest = drop 11 s;
             letters = takeWhile isLower rest;
             after = dropWhile isLower rest
         in if letters \<noteq> [] \<and> startsWith after '';base64,'' then drop 8 after else s)
      else s)"

text \<open>
  \<open>addWatermarkServer\<close>: whatever the image library throws is caught and becomes a failed
  result.
\<close>

definition addWatermarkServer :: "Env \<Rightarrow> string \<Rightarrow> WatermarkOptions \<Rightarrow> WatermarkResult" where
  "addWatermarkServer env imageData options =
     (let base64Data = stripDataUrlPrefix imageData;
          imageBuffer = e_fromBase64 env base64Data
      in case e_sharpMetadata env imageBuffer of
           Inl t \<Rightarrow>
             \<lparr>wr_success = False, wr_imageData = None,
              wr_error = Some (messageOr t ''Server watermarking failed'')\<rparr>
         | Inr metadata \<Rightarrow>
             (let width = given 512 (sm_width metadata);
                  height = given 512 (sm_height metadata);
                  watermarkSvg = createWatermarkSvg options width height;
                  watermarkPos = calculateServerPosition (of_int width) (wo_position options)
                                   (wo_fontSize options)
              in case e_sharpCompositePng env imageBuffer watermarkSvg
                        (pt_y watermarkPos) (pt_x watermarkPos) of
                   Inl t \<Rightarrow>
                     \<lparr>wr_success = False, wr_imageData = None,
                      wr_error = Some (messageOr t ''Server watermarking failed'')\<rparr>
                 | Inr watermarkedBuffer \<Rightarrow>
                     \<lparr>wr_success = True,
                      wr_imageData =
                        Some (''data:image/png;base64,'' @ e_toBase64 env watermarkedBuffer),
                      wr_error = None\<rparr>))"

definition addWatermark :: "Env \<Rightarrow> string \<Rightarrow> PartialWatermarkOptions \<Rightarrow> WatermarkResult" where
  "addWatermark env imageData options =
     (let opts = mergeOptions DEFAULT_OPTIONS options
      in addWatermarkServer env imageData opts)"

definition addPreviewWatermark :: "Env \<Rightarrow> string \<Rightarrow> WatermarkResult" where
  "addPreviewWatermark env imageData =
     addWatermarkServer env imageData
       \<lparr>wo_text = ''PREVIEW - Portrait Banana'', wo_opacity = 8 / 10, wo_fontSize = 20,
        wo_fontFamily = ''Arial, sans-serif'', wo_color = ''rgba(0, 0, 0, 0.8)'',
        wo_backgroundColor = Some ''rgba(255, 255, 255, 0.9)'', wo_position = BottomCenter,
        wo_padding = 20, wo_pattern = Some True\<rparr>"

definition addSubtleWatermark :: "Env \<Rightarrow> string \<Rightarrow> WatermarkResult" where
  "addSubtleWatermark env imageData =
     addWatermark env imageData
       \<lparr>po_text = Some ''Portrait Banana'', po_opacity = Some (5 / 10),
        po_fontSize = Some 16, po_fontFamily = None,
        po_color = Some ''rgba(0, 0, 0, 0.6)'',
        po_backgroundColor = Some ''rgba(255, 255, 255, 0.7)'',
        po_position = Some BottomRight, po_padding = None, po_pattern = Some False\<rparr>"




subsection \<open>Preview endpoint (\<open>generate-preview/route.ts\<close>)\<close>

record PreviewMetadata =
  pm_generationTime :: int
  pm_cost :: rat
  pm_dimensions :: Dimensions
  pm_quality :: Quality
  pm_watermarked :: bool

text \<open>The JSON body of a response, with every property that one of the responses sets.\<close>

record ResponseBody =
  rb_success :: bool
  rb_error :: "string option"
  rb_retryAfter :: "int option"
  rb_resetTime :: "int option"
  rb_previewUrl :: "string option"
  rb_imageData :: "string option"
  rb_metadata :: "PreviewMetadata option"
  rb_warnings :: "string list option"

record HttpResponse =
  rs_status :: nat
  rs_headers :: "(string \<times> string) list"
  rs_body :: ResponseBody

text \<open>\<open>NextResponse.json({ success: false, error }, { status })\<close>.\<close>

definition errorResponse :: "nat \<Rightarrow> string \<Rightarrow> HttpResponse" where
  "errorResponse status message =
     \<lparr>rs_status = status, rs_headers = [],
      rs_body = \<lparr>rb_success = False, rb_error = Some message, rb_retryAfter = None,
                 rb_resetTime = None, rb_previewUrl = None, rb_imageData = None,
                 rb_metadata = None, rb_warnings = None\<rparr>\<rparr>"

text \<open>The response of the \<open>catch\<close> block of the handler.\<close>

definition caughtResponse :: "thrown \<Rightarrow> HttpResponse" where
  "caughtResponse t =
     errorResponse 500 (''Preview generation failed: '' @ messageOr t ''Internal server error'')"

definition rateLimitedResponse :: "RateLimitResult \<Rightarrow> HttpResponse" where
  "rateLimitedResponse rateLimitResult =
     \<lparr>rs_status = 429,
      rs_headers =
        [(''X-RateLimit-Limit'', ''3''),
         (''X-RateLimit-Remaining'', showInt (rr_remaining rateLimitResult)),
         (''X-RateLimit-Reset'', showInt (rr_resetTime rateLimitResult)),
         (''Retry-After'',
            (case rr_retryAfter rateLimitResult of None \<Rightarrow> ''0'' | Some n \<Rightarrow> showInt n))],
      rs_body = \<lparr>rb_success = False,
                 rb_error = Some ''Rate limit exceeded. Please try again later.'',
                 rb_retryAfter = rr_retryAfter rateLimitResult,
                 rb_resetTime = Some (rr_resetTime rateLimitResult),
                 rb_previewUrl = None, rb_imageData = None, rb_metadata = None,
                 rb_warnings = None\<rparr>\<rparr>"

definition createPreviewUrl :: "string \<Rightarrow> string" where
  "createPreviewUrl imageData =
     (if startsWith imageData ''data:'' then imageData
      else ''data:image/png;base64,'' @ imageData)"

text \<open>The validation options that the handler passes to \<open>processResponse\<close>.\<close>

definition previewValidationOptions :: ValidationOptions where
  "previewValidationOptions =
     \<lparr>vo_minWidth = Some PREVIEW_SIZE, vo_minHeight = Some PREVIEW_SIZE,
      vo_maxFileSize = Some (5 * 1024 * 1024),
      vo_allowedFormats = Some [''image/jpeg'', ''image/png'', ''image/webp''],
      vo_qualityThreshold = None\<rparr>"

text \<open>
  The handler from \<open>// Process and validate the generated image\<close> to its last \<open>return\<close>;
  \<open>generationResult\<close> has passed the test for success and payload. The clock is read for
  \<open>createMetrics\<close> and, when the image is valid, for the time stamp of the metadata.
\<close>

definition deliverPreview ::
  "Env \<Rightarrow> World \<Rightarrow> int \<Rightarrow> RateLimitResult \<Rightarrow> GenerationResponse \<Rightarrow> HttpResponse \<times> World" where
  "deliverPreview env w startTime rateLimitResult generationResult =
     (let metrics = createMetrics startTime (e_now env (w_clock w))
                      (ac_model (getAIConfig env)) Preview;
          processedResponse =
            processResponse env (e_now env (w_clock w + 1)) generationResult metrics
              previewValidationOptions;
          w' = w\<lparr>w_clock := w_clock w + (if ps_success processedResponse then 2 else 1)\<rparr>
      in if \<not> ps_success processedResponse \<or> \<not> truthy (ps_imageData processedResponse) then
           (errorResponse 500
              (orElse (ps_error processedResponse) ''Failed to process generated image''), w')
         else
           (let processedImage = orElse (ps_imageData processedResponse) [];
                watermarkResult = addPreviewWatermark env processedImage;
                watermarkedImageData = orElse (wr_imageData watermarkResult) processedImage;
                previewUrl = createPreviewUrl watermarkedImageData;
                metadata =
                  \<lparr>pm_generationTime = m_duration metrics, pm_cost = m_cost metrics,
                   pm_dimensions =
                     (case ps_metadata processedResponse of
                        None \<Rightarrow> \<lparr>d_width = PREVIEW_SIZE, d_height = PREVIEW_SIZE\<rparr>
                      | Some md \<Rightarrow>
                          given \<lparr>d_width = PREVIEW_SIZE, d_height = PREVIEW_SIZE\<rparr>
                            (md_dimensions md)),
                   pm_quality =
                     (case ps_metadata processedResponse of
                        None \<Rightarrow> Medium
                      | Some md \<Rightarrow> md_quality md),
                   pm_watermarked = True\<rparr>
            in (\<lparr>rs_status = 200,
                 rs_headers =
                   [(''X-RateLimit-Limit'', ''3''),
                    (''X-RateLimit-Remaining'', showInt (rr_remaining rateLimitResult)),
                    (''X-RateLimit-Reset'', showInt (rr_resetTime rateLimitResult))],
                 rs_body = \<lparr>rb_success = True, rb_error = None, rb_retryAfter = None,
                            rb_resetTime = None, rb_previewUrl = Some previewUrl,
                            rb_imageData = Some watermarkedImageData,
                            rb_metadata = Some metadata,
                            rb_warnings = ps_warnings processedResponse\<rparr>\<rparr>, w')))"

text \<open>
  \<open>// Convert the serialized image back to UploadedImage format for AI service\<close>: the
  file is an empty dummy, and the fields were found present.
\<close>

definition toUploadedImage :: "ImageBody \<Rightarrow> UploadedImage" where
  "toUploadedImage img =
     \<lparr>ui_id = orElse (ib_id img) [],
      ui_file = \<lparr>f_bytes = [], f_name = ''image.jpg'', f_type = orElse (ib_type img) []\<rparr>,
      ui_preview = ib_preview img, ui_size = ib_size img,
      ui_type = orElse (ib_type img) [], ui_dimensions = ib_dimensions img,
      ui_uploadedAt = ib_uploadedAt img, ui_base64Data = ib_base64Data img\<rparr>"

text \<open>
  The handler from \<open>// Build prompt using PromptBuilder\<close> on, for a body whose fields are
  present. \<open>buildPrompt\<close> runs before \<open>validateContext\<close>; what it throws reaches the \<open>catch\<close>
  block of the handler.
\<close>

definition generateForBody ::
  "Env \<Rightarrow> World \<Rightarrow> int \<Rightarrow> RateLimitResult \<Rightarrow> ImageBody \<Rightarrow> CustomizationOptions
     \<Rightarrow> string option \<Rightarrow> (HttpResponse \<times> World) option" where
  "generateForBody env w startTime rateLimitResult img options prompt =
     (case buildPrompt options
             \<lparr>pp_industry = co_industry options, pp_mood = co_mood options,
              pp_lighting = None, pp_composition = None,
              pp_additionalRequirements = co_additionalRequirements options\<rparr> of
        Inl t \<Rightarrow> Some (caughtResponse t, w)
      | Inr promptVariations \<Rightarrow>
          (let finalPrompt = (if truthy prompt then Literal (orElse prompt [])
                              else pv_detailed promptVariations);
               promptValidation =
                 validateContext
                   \<lparr>pc_style = orElse (co_style options) ''professional'',
                    pc_background = orElse (co_background options) ''office'',
                    pc_industry = Some (orElse (co_industry options) ''general''),
                    pc_mood = None, pc_lighting = None, pc_composition = None,
                    pc_additionalRequirements = None\<rparr>
           in if \<not> cv_isValid promptValidation then
                Some (errorResponse 400
                        (''Invalid prompt context: ''
                         @ join '', '' (cv_errors promptValidation)), w)
              else
                (case generatePortrait env (getAIConfig env) w
                        \<lparr>gq_image = toUploadedImage img, gq_options = options,
                         gq_size = Preview, gq_prompt = Some finalPrompt\<rparr> of
                   None \<Rightarrow> None
                 | Some (generationResult, w') \<Rightarrow>
                     if \<not> gn_success generationResult
                        \<or> \<not> truthy (gn_imageData generationResult)
                     then Some (errorResponse 500
                                  (orElse (gn_error generationResult)
                                     ''Failed to generate preview''), w')
                     else Some (deliverPreview env w' startTime rateLimitResult
                                  generationResult))))"

text \<open>
  \<open>POST\<close>. The clock is read at entry, by the rate limiter and, on admission, by its sweep.
  The result is \<open>None\<close> when the handler does not return.
\<close>

definition POST :: "Env \<Rightarrow> World \<Rightarrow> NextRequest \<Rightarrow> (HttpResponse \<times> World) option" where
  "POST env w request =
     (let startTime = e_now env (w_clock w);
          checked = checkRateLimit (e_nodeEnv env) (e_now env (w_clock w + 1))
                      (e_now env (w_clock w + 2)) (w_store w) request;
          rateLimitResult = fst checked;
          w' = w\<lparr>w_store := snd checked,
                 w_clock := w_clock w + (if rr_allowed rateLimitResult then 3 else 2)\<rparr>
      in if \<not> rr_allowed rateLimitResult then Some (rateLimitedResponse rateLimitResult, w')
         else
           (case rq_json request of
              Inl t \<Rightarrow> Some (caughtResponse t, w')
            | Inr body \<Rightarrow>
                (case (pr_image body, pr_options body) of
                   (Some img, Some options) \<Rightarrow>
                     if \<not> truthy (ib_base64Data img) \<or> \<not> truthy (ib_id img)
                        \<or> \<not> truthy (ib_type img)
                     then Some (errorResponse 400
                                  ''Invalid image data: missing required fields'', w')
                     else if \<not> truthy (co_background options) \<or> \<not> truthy (co_style options)
                     then Some (errorResponse 400
                                  ''Invalid options: background and style are required'', w')
                     else generateForBody env w' startTime rateLimitResult img options
                            (pr_prompt body)
                 | _ \<Rightarrow>
                     Some (errorResponse 400
                             ''Missing required fields: image and options are required'',
                           w'))))"

subsection \<open>Concrete inputs\<close>

text \<open>A request without any of the address headers and without a JSON body.\<close>

definition anonymousRequest :: NextRequest where
  "anonymousRequest =
     \<lparr>rq_headers = Map.empty, rq_json = Inl (JsError ''Unexpected end of JSON input'')\<rparr>"

text \<open>
  The environment of a server: no \<open>window\<close>, \<open>Buffer\<close> present. The provider answers with
  one image, whose base64 text \<open>AQID\<close> stands for the bytes 1, 2, 3; the image library
  reads a 512 by 512 image and composes the bytes 4, 5, 6, in base64 \<open>BAUG\<close>. The clock
  advances by one second at each reading.
\<close>

definition serverEnv :: Env where
  "serverEnv =
     \<lparr>e_nodeEnv = Some ''production'', e_DEV_MODE_SKIP_AI = None,
      e_GEMINI_API_KEY = Some ''key'',
      e_now = (\<lambda>k. 1000 * int k),
      e_generateContent = (\<lambda>k model prompt img.
         Inr (SdkResponse (Some [Candidate (Some (Content (Some
                [Part (Some (InlineData (Some ''AQID'')))])))]))),
      e_hasWindow = False, e_hasFileReader = False, e_hasBuffer = True,
      e_fromBase64 = (\<lambda>s. if s = ''AQID'' then [1, 2, 3] else []),
      e_toBase64 = (\<lambda>b. if b = [1, 2, 3] then ''AQID''
                         else if b = [4, 5, 6] then ''BAUG'' else []),
      e_atob = (\<lambda>s. Inl (JsError ''atob is not defined'')),
      e_btoa = (\<lambda>s. Inl (JsError ''btoa is not defined'')),
      e_readAsDataURL = (\<lambda>f. Inl (JsError ''FileReader is not defined'')),
      e_loadImage = (\<lambda>b. None),
      e_sharpMetadata = (\<lambda>buf. Inr \<lparr>sm_width = Some 512, sm_height = Some 512\<rparr>),
      e_sharpCompositePng = (\<lambda>buf svg top left. Inr [4, 5, 6])\<rparr>"

text \<open>The state of a process that has served no request.\<close>

definition freshWorld :: World where
  "freshWorld = \<lparr>w_store = Map.empty, w_retryCount = 0, w_providerCalls = 0, w_clock = 0\<rparr>"

text \<open>
  A browser: like \<open>serverEnv\<close>, but with a \<open>window\<close> that decodes every image as 2048 by
  2048.
\<close>

definition browserEnv :: Env where
  "browserEnv =
     serverEnv\<lparr>e_hasWindow := True,
               e_loadImage := (\<lambda>b. Some \<lparr>d_width = 2048, d_height = 2048\<rparr>)\<rparr>"

text \<open>A successful generation result carrying the image \<open>AQID\<close>, and no validation options.\<close>

definition generatedImage :: GenerationResponse where
  "generatedImage =
     \<lparr>gn_success = True, gn_imageUrl = None, gn_imageData = Some ''AQID'', gn_error = None,
      gn_cost = Some (39 / 1000), gn_generationTime = Some 3000\<rparr>"

definition noValidationOptions :: ValidationOptions where
  "noValidationOptions =
     \<lparr>vo_minWidth = None, vo_minHeight = None, vo_maxFileSize = None,
      vo_allowedFormats = None, vo_qualityThreshold = None\<rparr>"

text \<open>
  No watermark options at all, and options that are invalid in each of the three ways:
  opacity 5, font size 500, padding -3.
\<close>

definition noWatermarkOptions :: PartialWatermarkOptions where
  "noWatermarkOptions =
     \<lparr>po_text = None, po_opacity = None, po_fontSize = None, po_fontFamily = None,
      po_color = None, po_backgroundColor = None, po_position = None, po_padding = None,
      po_pattern = None\<rparr>"


text \<open>The image and the options of \<open>validBody\<close>, and the image of \<open>smallImageBody\<close>.\<close>

definition validImage :: ImageBody where
  "validImage =
     \<lparr>ib_id = Some ''img-1'', ib_preview = ''blob:preview'', ib_size = 1024,
      ib_type = Some ''image/jpeg'', ib_dimensions = \<lparr>d_width = 1024, d_height = 1024\<rparr>,
      ib_uploadedAt = ''2025-01-01T00:00:00.000Z'', ib_base64Data = Some ''AQID''\<rparr>"

definition smallImage :: ImageBody where
  "smallImage = validImage\<lparr>ib_dimensions := \<lparr>d_width = 256, d_height = 256\<rparr>\<rparr>"

definition officeOptions :: CustomizationOptions where
  "officeOptions =
     \<lparr>co_background = Some ''office'', co_style = Some ''professional'',
      co_industry = None, co_mood = None, co_additionalRequirements = None\<rparr>"

text \<open>
  Request bodies: with every field and a 1024 by 1024 image; the same with a 256 by 256
  image; with nothing in it. \<open>previewRequest body\<close> sends a body from the address
  203.0.113.7.
\<close>

definition validBody :: PreviewGenerationRequest where
  "validBody =
     \<lparr>pr_image = Some validImage, pr_options = Some officeOptions,
      pr_prompt = None, pr_useCase = None\<rparr>"

definition smallImageBody :: PreviewGenerationRequest where
  "smallImageBody = validBody\<lparr>pr_image := Some smallImage\<rparr>"

definition emptyBody :: PreviewGenerationRequest where
  "emptyBody = \<lparr>pr_image = None, pr_options = None, pr_prompt = None, pr_useCase = None\<rparr>"

definition previewRequest :: "PreviewGenerationRequest \<Rightarrow> NextRequest" where
  "previewRequest body =
     \<lparr>rq_headers = [''x-forwarded-for'' \<mapsto> ''203.0.113.7''], rq_json = Inr body\<rparr>"


text \<open>A server whose provider refuses every call for lack of quota.\<close>

definition quotaEnv :: Env where
  "quotaEnv =
     serverEnv\<lparr>e_generateContent :=
       (\<lambda>k model prompt img. Inl (JsError ''quota exceeded''))\<rparr>"


subsection \<open>The scoring rule in the words of the specification\<close>

text \<open>
  Points for the shorter side, for the duration and for the size class, and the tier of
  a total, as section 4.4 of the specification states them.
\<close>

definition specDimensionPoints :: "int \<Rightarrow> int" where
  "specDimensionPoints shorterSide =
     (if shorterSide \<ge> 2048 then 3 else if shorterSide \<ge> 1024 then 2
      else if shorterSide \<ge> 512 then 1 else 0)"

definition specTimePoints :: "int \<Rightarrow> int" where
  "specTimePoints duration = (if duration < 5000 then 2 else if duration < 15000 then 1 else 0)"

definition specSizePoints :: "SizeClass \<Rightarrow> int" where
  "specSizePoints sizeClass = (case sizeClass of Full \<Rightarrow> 2 | Preview \<Rightarrow> 1)"

definition specTier :: "int \<Rightarrow> Quality" where
  "specTier points = (if points \<ge> 6 then High else if points \<ge> 3 then Medium else Low)"

subsection \<open>Notions used in the statements about the endpoint\<close>

text \<open>The call of \<open>checkRateLimit\<close> that the handler makes when it starts in state \<open>w\<close>.\<close>

definition handlerAdmission :: "Env \<Rightarrow> World \<Rightarrow> NextRequest \<Rightarrow> RateLimitResult \<times> rateLimitStore" where
  "handlerAdmission env w request =
     checkRateLimit (e_nodeEnv env) (e_now env (w_clock w + 1)) (e_now env (w_clock w + 2))
       (w_store w) request"

text \<open>
  A body that fails the field validation of the handler: it lacks the image or the
  options, or one of the five fields that the handler tests is missing or empty.
\<close>

definition failsFieldValidation :: "PreviewGenerationRequest \<Rightarrow> bool" where
  "failsFieldValidation body =
     (case (pr_image body, pr_options body) of
        (Some img, Some options) \<Rightarrow>
          \<not> truthy (ib_base64Data img) \<or> \<not> truthy (ib_id img) \<or> \<not> truthy (ib_type img)
          \<or> \<not> truthy (co_background options) \<or> \<not> truthy (co_style options)
      | _ \<Rightarrow> True)"

text \<open>
  A request that the handler lets through to generation: admitted, with the image and
  the options in its body, the five tested fields present, a style, background and
  industry that the prompt tables know, outside the development mode.
\<close>

definition acceptedRequest ::
  "Env \<Rightarrow> World \<Rightarrow> NextRequest \<Rightarrow> ImageBody \<Rightarrow> CustomizationOptions \<Rightarrow> bool" where
  "acceptedRequest env w request img options =
     (rr_allowed (fst (handlerAdmission env w request))
      \<and> (\<exists>body. rq_json request = Inr body \<and> pr_image body = Some img
                 \<and> pr_options body = Some options)
      \<and> truthy (ib_base64Data img) \<and> truthy (ib_id img) \<and> truthy (ib_type img)
      \<and> truthy (co_background options) \<and> truthy (co_style options)
      \<and> STYLE_DESCRIPTIONS (orElse (co_style options) ''professional'') \<noteq> None
      \<and> BACKGROUND_DESCRIPTIONS (orElse (co_background options) ''office'') \<noteq> None
      \<and> INDUSTRY_CONTEXTS (orElse (co_industry options) ''general'') \<noteq> None
      \<and> \<not> devModeSkipAI env)"

text \<open>
  The state in which an admitted request reaches generation, and the one generation
  attempt that \<open>generatePortrait\<close> then makes for the prompt \<open>finalPrompt\<close>.
\<close>

definition admittedWorld :: "Env \<Rightarrow> World \<Rightarrow> NextRequest \<Rightarrow> World" where
  "admittedWorld env w request =
     w\<lparr>w_store := snd (handlerAdmission env w request), w_clock := w_clock w + 3\<rparr>"

definition handlerAttempt ::
  "Env \<Rightarrow> World \<Rightarrow> NextRequest \<Rightarrow> ImageBody \<Rightarrow> CustomizationOptions \<Rightarrow> Prompt
     \<Rightarrow> (thrown + GenerationResponse) \<times> World" where
  "handlerAttempt env w request img options finalPrompt =
     generateAttempt env (getAIConfig env)
       ((admittedWorld env w request)
          \<lparr>w_clock := w_clock (admittedWorld env w request) + 1, w_retryCount := 0\<rparr>)
       \<lparr>gq_image = toUploadedImage img, gq_options = options, gq_size = Preview,
        gq_prompt = Some finalPrompt\<rparr>
       (e_now env (w_clock (admittedWorld env w request)))"

section \<open>Verification\<close>

subsection \<open>Rate limiter\<close>

lemma maxAttempts_pos: "0 < maxAttempts nodeEnv"
  by (simp add: maxAttempts_def MAX_ATTEMPTS_PER_IP_def)

lemma windowMs_pos: "0 < windowMs nodeEnv"
  by (simp add: windowMs_def WINDOW_MS_def)

lemma retry_ceiling: "\<lceil>of_int a / (1000 :: rat)\<rceil> = - ((- a) div 1000)"
  using ceiling_divide_eq_div [of a 1000, where ?'a = rat] by simp

lemma retry_ceiling_pos: "0 < \<lceil>of_int a / (1000 :: rat)\<rceil> \<longleftrightarrow> 0 < a"
  by simp

text \<open>One call: inside the window and below the ceiling, on a fresh or expired entry, at the ceiling.\<close>

lemma check_allowed_step:
  assumes "store (getClientIP request) = Some e" "now \<le> re_resetTime e"
    "re_count e < maxAttempts nodeEnv" "nowCleanup \<le> re_resetTime e"
  shows "fst (checkRateLimit nodeEnv now nowCleanup store request) =
           \<lparr>rr_allowed = True, rr_remaining = maxAttempts nodeEnv - (re_count e + 1),
            rr_resetTime = re_resetTime e, rr_retryAfter = None\<rparr>"
    and "snd (checkRateLimit nodeEnv now nowCleanup store request) (getClientIP request) =
           Some (e\<lparr>re_count := re_count e + 1, re_lastRequest := now\<rparr>)"
  using assms by (simp_all add: checkRateLimit_def Let_def cleanupExpiredEntries_def)

lemma check_fresh_step:
  assumes "case store (getClientIP request) of None \<Rightarrow> True | Some e \<Rightarrow> now > re_resetTime e"
    "nowCleanup \<le> now + windowMs nodeEnv"
  shows "fst (checkRateLimit nodeEnv now nowCleanup store request) =
           \<lparr>rr_allowed = True, rr_remaining = maxAttempts nodeEnv - 1,
            rr_resetTime = now + windowMs nodeEnv, rr_retryAfter = None\<rparr>"
    and "snd (checkRateLimit nodeEnv now nowCleanup store request) (getClientIP request) =
           Some \<lparr>re_count = 1, re_resetTime = now + windowMs nodeEnv, re_lastRequest = now\<rparr>"
  using assms maxAttempts_pos [of nodeEnv]
  by (auto simp add: checkRateLimit_def Let_def cleanupExpiredEntries_def split: option.splits)

lemma check_denied_step:
  assumes "store (getClientIP request) = Some e" "now \<le> re_resetTime e"
    "maxAttempts nodeEnv \<le> re_count e"
  shows "checkRateLimit nodeEnv now nowCleanup store request =
           (\<lparr>rr_allowed = False, rr_remaining = 0, rr_resetTime = re_resetTime e,
             rr_retryAfter = Some \<lceil>of_int (re_resetTime e - now) / (1000 :: rat)\<rceil>\<rparr>, store)"
  using assms by (simp add: checkRateLimit_def Let_def)

lemma check_allowed_count:
  assumes "rr_allowed (fst (checkRateLimit nodeEnv now nowCleanup store request))"
    "snd (checkRateLimit nodeEnv now nowCleanup store request) (getClientIP request) = Some e'"
  shows "re_count e' \<le> maxAttempts nodeEnv"
  using assms
  by (auto simp add: checkRateLimit_def Let_def cleanupExpiredEntries_def
      split: option.splits if_splits)


text \<open>Successive calls inside the window of an existing entry.\<close>

lemma successive_in_window:
  assumes "store (getClientIP request) = Some e"
    and "re_count e + int (length clocks) \<le> maxAttempts nodeEnv"
    and "\<forall>(t, t') \<in> set clocks. t \<le> re_resetTime e \<and> t' \<le> re_resetTime e"
  shows "length (fst (successiveChecks nodeEnv request store clocks)) = length clocks
    \<and> (\<forall>i < length clocks. fst (successiveChecks nodeEnv request store clocks) ! i =
           \<lparr>rr_allowed = True, rr_remaining = maxAttempts nodeEnv - (re_count e + 1 + int i),
            rr_resetTime = re_resetTime e, rr_retryAfter = None\<rparr>)
    \<and> snd (successiveChecks nodeEnv request store clocks) (getClientIP request) =
         Some (if clocks = [] then e
               else e\<lparr>re_count := re_count e + int (length clocks),
                      re_lastRequest := fst (last clocks)\<rparr>)"
  using assms
proof (induction clocks arbitrary: store e)
  case Nil
  then show ?case by simp
next
  case (Cons c clocks)
  obtain t t' where c: "c = (t, t')" by (cases c)
  let ?step = "checkRateLimit nodeEnv t t' store request"
  let ?e' = "e\<lparr>re_count := re_count e + 1, re_lastRequest := t\<rparr>"
  have tw: "t \<le> re_resetTime e" "t' \<le> re_resetTime e"
    using Cons.prems(3) c by auto
  have lt: "re_count e < maxAttempts nodeEnv"
    using Cons.prems(2) by simp
  have r: "fst ?step = \<lparr>rr_allowed = True, rr_remaining = maxAttempts nodeEnv - (re_count e + 1),
            rr_resetTime = re_resetTime e, rr_retryAfter = None\<rparr>"
    and s: "snd ?step (getClientIP request) = Some ?e'"
    using check_allowed_step [where store = store and request = request, OF Cons.prems(1) tw(1) lt tw(2)]
    by simp_all
  have rest: "\<forall>(u, u') \<in> set clocks. u \<le> re_resetTime ?e' \<and> u' \<le> re_resetTime ?e'"
    using Cons.prems(3) by auto
  have cnt: "re_count ?e' + int (length clocks) \<le> maxAttempts nodeEnv"
    using Cons.prems(2) by simp
  note IH = Cons.IH [of "snd ?step" ?e', OF s cnt rest]
  let ?tail = "successiveChecks nodeEnv request (snd ?step) clocks"
  have unfold: "successiveChecks nodeEnv request store (c # clocks) =
                  (fst ?step # fst ?tail, snd ?tail)"
    by (simp add: c split: prod.splits)
  have len: "length (fst (successiveChecks nodeEnv request store (c # clocks))) =
               length (c # clocks)"
    using IH by (simp add: unfold)
  have idx: "\<forall>i < length (c # clocks).
        fst (successiveChecks nodeEnv request store (c # clocks)) ! i =
           \<lparr>rr_allowed = True, rr_remaining = maxAttempts nodeEnv - (re_count e + 1 + int i),
            rr_resetTime = re_resetTime e, rr_retryAfter = None\<rparr>"
  proof (intro allI impI)
    fix i assume i: "i < length (c # clocks)"
    show "fst (successiveChecks nodeEnv request store (c # clocks)) ! i =
           \<lparr>rr_allowed = True, rr_remaining = maxAttempts nodeEnv - (re_count e + 1 + int i),
            rr_resetTime = re_resetTime e, rr_retryAfter = None\<rparr>"
    proof (cases i)
      case 0
      then show ?thesis by (simp add: unfold r)
    next
      case (Suc j)
      then have "j < length clocks" using i by simp
      with IH have "fst ?tail ! j =
           \<lparr>rr_allowed = True, rr_remaining = maxAttempts nodeEnv - (re_count ?e' + 1 + int j),
            rr_resetTime = re_resetTime ?e', rr_retryAfter = None\<rparr>"
        by blast
      then show ?thesis by (simp add: unfold Suc algebra_simps)
    qed
  qed
  have fin: "snd (successiveChecks nodeEnv request store (c # clocks)) (getClientIP request) =
         Some (e\<lparr>re_count := re_count e + int (length (c # clocks)),
                      re_lastRequest := fst (last (c # clocks))\<rparr>)"
    unfolding unfold using IH s by (cases "clocks = []") (simp_all add: c algebra_simps)
  show ?case using len idx fin by simp
qed


text \<open>
  Claim C3, amended. For a client identity that has no entry, or an expired one, and \<open>N\<close>
  calls (\<open>N\<close> the ceiling, \<open>W\<close> the window) whose clock readings are at most the reset time
  \<open>first + W\<close> of the entry that the first call creates: there are \<open>N\<close> results, the
  \<open>i\<close>-th (from 0) is allowed with \<open>remaining = N - 1 - i\<close> and that reset time; the stored
  count is then \<open>N\<close>; every further call at a time \<open>t \<le> first + W\<close> is denied, leaves the
  table as it is and has \<open>retryAfter = \<lceil>(first + W - t) / 1000\<rceil>\<close>, which is positive
  exactly when \<open>t < first + W\<close>; a call at a time after \<open>first + W\<close> is allowed with
  \<open>remaining = N - 1\<close> and replaces the entry by one with count 1 and a new window; and
  whenever a call is allowed, the count it leaves in the table is at most \<open>N\<close>.
\<close>

theorem rate_limit_window:
  assumes fresh: "case store (getClientIP request) of None \<Rightarrow> True | Some e \<Rightarrow> first > re_resetTime e"
    and calls: "int (length clocks) + 1 = maxAttempts nodeEnv"
    and firstSweep: "first' \<le> first + windowMs nodeEnv"
    and within: "\<forall>(t, t') \<in> set clocks. t \<le> first + windowMs nodeEnv \<and> t' \<le> first + windowMs nodeEnv"
  shows
    "length (fst (successiveChecks nodeEnv request store ((first, first') # clocks))) =
        nat (maxAttempts nodeEnv)
     \<and> (\<forall>i < length ((first, first') # clocks).
        fst (successiveChecks nodeEnv request store ((first, first') # clocks)) ! i =
          \<lparr>rr_allowed = True, rr_remaining = maxAttempts nodeEnv - 1 - int i,
           rr_resetTime = first + windowMs nodeEnv, rr_retryAfter = None\<rparr>)
     \<and> snd (successiveChecks nodeEnv request store ((first, first') # clocks)) (getClientIP request) =
          Some \<lparr>re_count = maxAttempts nodeEnv, re_resetTime = first + windowMs nodeEnv,
                re_lastRequest = fst (last ((first, first') # clocks))\<rparr>
     \<and> (\<forall>t t'. t \<le> first + windowMs nodeEnv \<longrightarrow>
          checkRateLimit nodeEnv t t'
              (snd (successiveChecks nodeEnv request store ((first, first') # clocks))) request =
            (\<lparr>rr_allowed = False, rr_remaining = 0, rr_resetTime = first + windowMs nodeEnv,
              rr_retryAfter = Some \<lceil>of_int (first + windowMs nodeEnv - t) / (1000 :: rat)\<rceil>\<rparr>,
             snd (successiveChecks nodeEnv request store ((first, first') # clocks)))
          \<and> (0 < \<lceil>of_int (first + windowMs nodeEnv - t) / (1000 :: rat)\<rceil>
                \<longleftrightarrow> t < first + windowMs nodeEnv))
     \<and> (\<forall>t t'. first + windowMs nodeEnv < t \<and> t' \<le> t + windowMs nodeEnv \<longrightarrow>
          fst (checkRateLimit nodeEnv t t'
              (snd (successiveChecks nodeEnv request store ((first, first') # clocks))) request) =
            \<lparr>rr_allowed = True, rr_remaining = maxAttempts nodeEnv - 1,
             rr_resetTime = t + windowMs nodeEnv, rr_retryAfter = None\<rparr>
          \<and> snd (checkRateLimit nodeEnv t t'
              (snd (successiveChecks nodeEnv request store ((first, first') # clocks))) request)
                (getClientIP request) =
            Some \<lparr>re_count = 1, re_resetTime = t + windowMs nodeEnv, re_lastRequest = t\<rparr>)
     \<and> (\<forall>s t t' e'.
          rr_allowed (fst (checkRateLimit nodeEnv t t' s request))
          \<and> snd (checkRateLimit nodeEnv t t' s request) (getClientIP request) = Some e'
          \<longrightarrow> re_count e' \<le> maxAttempts nodeEnv)"
proof -
  let ?ip = "getClientIP request"
  let ?W = "windowMs nodeEnv"
  let ?N = "maxAttempts nodeEnv"
  let ?step = "checkRateLimit nodeEnv first first' store request"
  let ?e1 = "\<lparr>re_count = 1, re_resetTime = first + ?W, re_lastRequest = first\<rparr>"
  let ?run = "successiveChecks nodeEnv request store ((first, first') # clocks)"
  let ?tail = "successiveChecks nodeEnv request (snd ?step) clocks"
  have r1: "fst ?step = \<lparr>rr_allowed = True, rr_remaining = ?N - 1,
            rr_resetTime = first + ?W, rr_retryAfter = None\<rparr>"
    and s1: "snd ?step ?ip = Some ?e1"
    using check_fresh_step [where store = store and request = request, OF fresh firstSweep]
    by simp_all
  have unfold: "?run = (fst ?step # fst ?tail, snd ?tail)"
    by (simp split: prod.splits)
  have cnt: "re_count ?e1 + int (length clocks) \<le> ?N"
    using calls by simp
  have win: "\<forall>(t, t') \<in> set clocks. t \<le> re_resetTime ?e1 \<and> t' \<le> re_resetTime ?e1"
    using within by simp
  note tail = successive_in_window [of "snd ?step" request ?e1 clocks nodeEnv, OF s1 cnt win]
  have L: "length (fst ?run) = nat ?N"
    unfolding unfold using tail calls by simp
  have A: "\<forall>i < length ((first, first') # clocks). fst ?run ! i =
          \<lparr>rr_allowed = True, rr_remaining = ?N - 1 - int i,
           rr_resetTime = first + ?W, rr_retryAfter = None\<rparr>"
  proof (intro allI impI)
    fix i assume i: "i < length ((first, first') # clocks)"
    show "fst ?run ! i = \<lparr>rr_allowed = True, rr_remaining = ?N - 1 - int i,
           rr_resetTime = first + ?W, rr_retryAfter = None\<rparr>"
    proof (cases i)
      case 0
      then show ?thesis unfolding unfold by (simp add: r1)
    next
      case (Suc j)
      then have "j < length clocks" using i by simp
      with tail have "fst ?tail ! j = \<lparr>rr_allowed = True,
            rr_remaining = ?N - (re_count ?e1 + 1 + int j),
            rr_resetTime = re_resetTime ?e1, rr_retryAfter = None\<rparr>"
        by blast
      then show ?thesis unfolding unfold by (simp add: Suc algebra_simps)
    qed
  qed
  have B: "snd ?run ?ip = Some \<lparr>re_count = ?N, re_resetTime = first + ?W,
                re_lastRequest = fst (last ((first, first') # clocks))\<rparr>"
    unfolding unfold using tail s1 calls by (cases "clocks = []") (simp_all add: algebra_simps)
  have C: "\<forall>t t'. t \<le> first + ?W \<longrightarrow>
          checkRateLimit nodeEnv t t' (snd ?run) request =
            (\<lparr>rr_allowed = False, rr_remaining = 0, rr_resetTime = first + ?W,
              rr_retryAfter = Some \<lceil>of_int (first + ?W - t) / (1000 :: rat)\<rceil>\<rparr>, snd ?run)
          \<and> (0 < \<lceil>of_int (first + ?W - t) / (1000 :: rat)\<rceil> \<longleftrightarrow> t < first + ?W)"
  proof (intro allI impI)
    fix t t' :: int assume t: "t \<le> first + ?W"
    have "checkRateLimit nodeEnv t t' (snd ?run) request =
            (\<lparr>rr_allowed = False, rr_remaining = 0, rr_resetTime = first + ?W,
              rr_retryAfter = Some \<lceil>of_int (first + ?W - t) / (1000 :: rat)\<rceil>\<rparr>, snd ?run)"
      using check_denied_step [where store = "snd ?run" and request = request, OF B] t
      by simp
    moreover have "0 < \<lceil>of_int (first + ?W - t) / (1000 :: rat)\<rceil> \<longleftrightarrow> t < first + ?W"
      using retry_ceiling_pos [of "first + ?W - t"] by linarith
    ultimately show "checkRateLimit nodeEnv t t' (snd ?run) request =
            (\<lparr>rr_allowed = False, rr_remaining = 0, rr_resetTime = first + ?W,
              rr_retryAfter = Some \<lceil>of_int (first + ?W - t) / (1000 :: rat)\<rceil>\<rparr>, snd ?run)
          \<and> (0 < \<lceil>of_int (first + ?W - t) / (1000 :: rat)\<rceil> \<longleftrightarrow> t < first + ?W)"
      by blast
  qed
  have D: "\<forall>t t'. first + ?W < t \<and> t' \<le> t + ?W \<longrightarrow>
          fst (checkRateLimit nodeEnv t t' (snd ?run) request) =
            \<lparr>rr_allowed = True, rr_remaining = ?N - 1,
             rr_resetTime = t + ?W, rr_retryAfter = None\<rparr>
          \<and> snd (checkRateLimit nodeEnv t t' (snd ?run) request) ?ip =
            Some \<lparr>re_count = 1, re_resetTime = t + ?W, re_lastRequest = t\<rparr>"
  proof (intro allI impI)
    fix t t' :: int assume t: "first + ?W < t \<and> t' \<le> t + ?W"
    have exp: "case snd ?run ?ip of None \<Rightarrow> True | Some e \<Rightarrow> t > re_resetTime e"
      using B t by simp
    show "fst (checkRateLimit nodeEnv t t' (snd ?run) request) =
            \<lparr>rr_allowed = True, rr_remaining = ?N - 1,
             rr_resetTime = t + ?W, rr_retryAfter = None\<rparr>
          \<and> snd (checkRateLimit nodeEnv t t' (snd ?run) request) ?ip =
            Some \<lparr>re_count = 1, re_resetTime = t + ?W, re_lastRequest = t\<rparr>"
      using check_fresh_step [where store = "snd ?run" and request = request, OF exp] t
      by blast
  qed
  have E: "\<forall>s t t' e'.
          rr_allowed (fst (checkRateLimit nodeEnv t t' s request))
          \<and> snd (checkRateLimit nodeEnv t t' s request) ?ip = Some e'
          \<longrightarrow> re_count e' \<le> ?N"
    using check_allowed_count by blast
  show ?thesis using L A B C D E by blast
qed


text \<open>
  The production ceiling of three: calls at 0 s, 1 s and 2 s, and a fourth at 3 s, which is
  denied with 86397 seconds to wait.
\<close>

theorem rate_limit_window_witness:
  "(case Map.empty (getClientIP anonymousRequest) of None \<Rightarrow> True
      | Some e \<Rightarrow> 0 > re_resetTime e)
   \<and> int (length [(1000 :: int, 1000 :: int), (2000, 2000)]) + 1 = maxAttempts None
   \<and> (0 :: int) \<le> 0 + windowMs None
   \<and> fst (successiveChecks None anonymousRequest Map.empty
             [(0, 0), (1000, 1000), (2000, 2000)]) ! 2 =
         \<lparr>rr_allowed = True, rr_remaining = 0, rr_resetTime = 86400000, rr_retryAfter = None\<rparr>
   \<and> fst (checkRateLimit None 3000 3000
             (snd (successiveChecks None anonymousRequest Map.empty
                [(0, 0), (1000, 1000), (2000, 2000)])) anonymousRequest) =
         \<lparr>rr_allowed = False, rr_remaining = 0, rr_resetTime = 86400000,
          rr_retryAfter = Some 86397\<rparr>"
proof -
  have h1: "case Map.empty (getClientIP anonymousRequest) of None \<Rightarrow> True
      | Some e \<Rightarrow> 0 > re_resetTime e"
    by simp
  have h2: "int (length [(1000 :: int, 1000 :: int), (2000, 2000)]) + 1 = maxAttempts None"
    by (simp add: maxAttempts_def isDevelopment_def MAX_ATTEMPTS_PER_IP_def)
  have h3: "(0 :: int) \<le> 0 + windowMs None"
    by (simp add: windowMs_def isDevelopment_def WINDOW_MS_def)
  have h4: "\<forall>(t, t') \<in> set [(1000 :: int, 1000 :: int), (2000, 2000)].
          t \<le> 0 + windowMs None \<and> t' \<le> 0 + windowMs None"
    by (simp add: windowMs_def isDevelopment_def WINDOW_MS_def)
  note th = rate_limit_window [where store = Map.empty and request = anonymousRequest
      and first = 0 and first' = 0 and clocks = "[(1000, 1000), (2000, 2000)]" and nodeEnv = None,
      OF h1 h2 h3 h4]
  have c1: "fst (successiveChecks None anonymousRequest Map.empty
             [(0, 0), (1000, 1000), (2000, 2000)]) ! 2 =
         \<lparr>rr_allowed = True, rr_remaining = 0, rr_resetTime = 86400000, rr_retryAfter = None\<rparr>"
    using th by (simp add: maxAttempts_def windowMs_def isDevelopment_def
        MAX_ATTEMPTS_PER_IP_def WINDOW_MS_def)
  have "(3000 :: int) \<le> 0 + windowMs None"
    by (simp add: windowMs_def isDevelopment_def WINDOW_MS_def)
  with th have "checkRateLimit None 3000 3000
             (snd (successiveChecks None anonymousRequest Map.empty
                [(0, 0), (1000, 1000), (2000, 2000)])) anonymousRequest =
         (\<lparr>rr_allowed = False, rr_remaining = 0, rr_resetTime = 0 + windowMs None,
          rr_retryAfter = Some \<lceil>of_int (0 + windowMs None - 3000) / (1000 :: rat)\<rceil>\<rparr>,
          snd (successiveChecks None anonymousRequest Map.empty
                [(0, 0), (1000, 1000), (2000, 2000)]))"
    by blast
  then have c2: "fst (checkRateLimit None 3000 3000
             (snd (successiveChecks None anonymousRequest Map.empty
                [(0, 0), (1000, 1000), (2000, 2000)])) anonymousRequest) =
         \<lparr>rr_allowed = False, rr_remaining = 0, rr_resetTime = 86400000,
          rr_retryAfter = Some 86397\<rparr>"
    by (simp add: windowMs_def isDevelopment_def WINDOW_MS_def retry_ceiling)
  show ?thesis using h1 h2 h3 c1 c2 by blast
qed

text \<open>
  Claim C3 as stated fails at the last millisecond of the window: the fourth call at
  exactly the reset time is still denied (the entry expires only when \<open>now > resetTime\<close>),
  and its \<open>retryAfter\<close> is 0.
\<close>

theorem rate_limit_retryAfter_counterexample:
  "map rr_allowed (fst (successiveChecks None anonymousRequest Map.empty
       [(0, 0), (1000, 1000), (2000, 2000)])) = [True, True, True]
   \<and> checkRateLimit None 86400000 86400000
       (snd (successiveChecks None anonymousRequest Map.empty
          [(0, 0), (1000, 1000), (2000, 2000)])) anonymousRequest =
       (\<lparr>rr_allowed = False, rr_remaining = 0, rr_resetTime = 86400000,
         rr_retryAfter = Some 0\<rparr>,
        snd (successiveChecks None anonymousRequest Map.empty
          [(0, 0), (1000, 1000), (2000, 2000)]))"
  by (simp add: checkRateLimit_def cleanupExpiredEntries_def Let_def anonymousRequest_def
      getClientIP_def truthy_def orElse_def maxAttempts_def windowMs_def isDevelopment_def
      MAX_ATTEMPTS_PER_IP_def WINDOW_MS_def)

subsection \<open>Quality scoring\<close>

text \<open>The score of the code is the sum that the specification describes.\<close>

lemma assessQuality_spec:
  "assessQuality metadata options =
     specTier ((case mc_dimensions metadata of
                  None \<Rightarrow> 0
                | Some dims \<Rightarrow> specDimensionPoints (min (d_width dims) (d_height dims)))
               + specTimePoints (mc_generationTime metadata)
               + specSizePoints (mc_size metadata))"
  by (cases "mc_size metadata")
     (simp_all add: assessQuality_def specTier_def specDimensionPoints_def specTimePoints_def
        specSizePoints_def Let_def split: option.splits)

lemma processResponse_metadata:
  assumes "ps_metadata (processResponse env now response metrics validationOptions) = Some md"
  shows "\<exists>validation.
           md = \<lparr>md_model = m_model metrics, md_generationTime = m_duration metrics,
                 md_cost = m_cost metrics, md_size = m_size metrics,
                 md_quality = assessQuality (extractMetadata now response metrics validation)
                                (mergeValidation DEFAULT_VALIDATION validationOptions),
                 md_dimensions = iv_dimensions validation, md_format = ''image/jpeg'',
                 md_timestamp = now\<rparr>
           \<and> validation = validateImageData env (orElse (gn_imageData response) [])
                              (mergeValidation DEFAULT_VALIDATION validationOptions)"
  using assms
  by (auto simp add: processResponse_def Let_def extractMetadata_def split: if_splits)

text \<open>
  Claim C4. Whenever \<open>processResponse\<close> returns metadata, its quality tier is the tier of
  the sum of the three kinds of points of the specification, computed from the
  dimensions (no points when they are unknown), the duration and the size class of that
  metadata; \<open>assessQuality\<close> on metadata with dimensions \<open>wd\<close> by \<open>ht\<close> is that function of
  \<open>(min wd ht, duration, sizeClass)\<close>; and the two examples score 7, which is \<open>high\<close>, and
  1, which is \<open>low\<close>.
\<close>

theorem quality_is_additive:
  "(ps_metadata (processResponse env now response metrics validationOptions) = Some md \<longrightarrow>
      md_quality md =
        specTier ((case md_dimensions md of
                     None \<Rightarrow> 0
                   | Some dims \<Rightarrow> specDimensionPoints (min (d_width dims) (d_height dims)))
                  + specTimePoints (md_generationTime md) + specSizePoints (md_size md)))
   \<and> assessQuality
        (metadata\<lparr>mc_dimensions := Some \<lparr>d_width = wd, d_height = ht\<rparr>,
                  mc_generationTime := duration, mc_size := sizeClass\<rparr>) options =
        specTier (specDimensionPoints (min wd ht) + specTimePoints duration
                  + specSizePoints sizeClass)
   \<and> specDimensionPoints 2048 + specTimePoints 3000 + specSizePoints Full = 7
   \<and> specTier 7 = High
   \<and> specDimensionPoints 300 + specTimePoints 20000 + specSizePoints Preview = 1
   \<and> specTier 1 = Low"
proof -
  have A: "ps_metadata (processResponse env now response metrics validationOptions) = Some md \<longrightarrow>
      md_quality md =
        specTier ((case md_dimensions md of
                     None \<Rightarrow> 0
                   | Some dims \<Rightarrow> specDimensionPoints (min (d_width dims) (d_height dims)))
                  + specTimePoints (md_generationTime md) + specSizePoints (md_size md))"
  proof
    assume "ps_metadata (processResponse env now response metrics validationOptions) = Some md"
    from processResponse_metadata [OF this] obtain validation where
      md: "md = \<lparr>md_model = m_model metrics, md_generationTime = m_duration metrics,
                 md_cost = m_cost metrics, md_size = m_size metrics,
                 md_quality = assessQuality (extractMetadata now response metrics validation)
                                (mergeValidation DEFAULT_VALIDATION validationOptions),
                 md_dimensions = iv_dimensions validation, md_format = ''image/jpeg'',
                 md_timestamp = now\<rparr>"
      by blast
    show "md_quality md =
        specTier ((case md_dimensions md of
                     None \<Rightarrow> 0
                   | Some dims \<Rightarrow> specDimensionPoints (min (d_width dims) (d_height dims)))
                  + specTimePoints (md_generationTime md) + specSizePoints (md_size md))"
      by (simp add: md assessQuality_spec extractMetadata_def)
  qed
  have B: "assessQuality
        (metadata\<lparr>mc_dimensions := Some \<lparr>d_width = wd, d_height = ht\<rparr>,
                  mc_generationTime := duration, mc_size := sizeClass\<rparr>) options =
        specTier (specDimensionPoints (min wd ht) + specTimePoints duration
                  + specSizePoints sizeClass)"
    by (simp add: assessQuality_spec)
  have C: "specDimensionPoints 2048 + specTimePoints 3000 + specSizePoints Full = 7"
    "specTier 7 = High"
    "specDimensionPoints 300 + specTimePoints 20000 + specSizePoints Preview = 1"
    "specTier 1 = Low"
    by (simp_all add: specDimensionPoints_def specTimePoints_def specSizePoints_def specTier_def)
  show ?thesis using A B C by blast
qed


text \<open>In a browser that decodes a 2048 by 2048 image, after 3000 ms, for a full-size result.\<close>

theorem quality_is_additive_witness:
  "ps_metadata (processResponse browserEnv 3000 generatedImage
       (createMetrics 0 3000 ''gemini'' Full) noValidationOptions) =
     Some \<lparr>md_model = ''gemini'', md_generationTime = 3000, md_cost = 39 / 1000,
           md_size = Full, md_quality = High,
           md_dimensions = Some \<lparr>d_width = 2048, d_height = 2048\<rparr>,
           md_format = ''image/jpeg'', md_timestamp = 3000\<rparr>"
proof -
  let ?p = "processResponse browserEnv 3000 generatedImage
       (createMetrics 0 3000 ''gemini'' Full) noValidationOptions"
  have ok: "iv_isValid (validateImageData browserEnv ''AQID''
              (mergeValidation DEFAULT_VALIDATION noValidationOptions))"
    "iv_dimensions (validateImageData browserEnv ''AQID''
              (mergeValidation DEFAULT_VALIDATION noValidationOptions)) =
       Some \<lparr>d_width = 2048, d_height = 2048\<rparr>"
    by (simp_all add: validateImageData_def isValidBase64_def base64ToBlob_def
        getImageDimensions_def browserEnv_def serverEnv_def mergeValidation_def
        DEFAULT_VALIDATION_def noValidationOptions_def spread_def numOr_def truthyNum_def
        Let_def)
  obtain q where h: "ps_metadata ?p =
     Some \<lparr>md_model = ''gemini'', md_generationTime = 3000, md_cost = 39 / 1000,
           md_size = Full, md_quality = q,
           md_dimensions = Some \<lparr>d_width = 2048, d_height = 2048\<rparr>,
           md_format = ''image/jpeg'', md_timestamp = 3000\<rparr>"
    using ok
    by (simp add: processResponse_def generatedImage_def truthy_def orElse_def Let_def
        extractMetadata_def createMetrics_def FULL_COST_def)
  from quality_is_additive [where env = browserEnv, THEN conjunct1, rule_format, OF h]
  have "q = High"
    by (simp add: specTier_def specDimensionPoints_def specTimePoints_def specSizePoints_def)
  with h show ?thesis by simp
qed

subsection \<open>Response processing on a server\<close>

lemma validateImageData_no_window:
  assumes "\<not> e_hasWindow env"
  shows "iv_dimensions (validateImageData env imageData options) = None"
    and "iv_isValid (validateImageData env imageData options) \<Longrightarrow>
           iv_warnings (validateImageData env imageData options) =
             [''Could not determine image dimensions'']"
  using assms
  by (auto simp add: validateImageData_def getImageDimensions_def Let_def
      split: sum.splits if_splits)

text \<open>
  Claim C9. Without a \<open>window\<close>, \<open>getImageDimensions\<close> returns nothing for every blob, and
  every successful result of \<open>processResponse\<close> has metadata without dimensions, exactly
  the warning \<open>Could not determine image dimensions\<close>, and the quality tier of the points
  for duration and size class alone (none for dimensions); for the size class
  \<open>preview\<close> these are at most 2 + 1 = 3 points, so the tier is never \<open>high\<close>.
\<close>

theorem server_side_quality:
  assumes "\<not> e_hasWindow env"
  shows "getImageDimensions env blob = None
    \<and> (ps_success (processResponse env now response metrics validationOptions) \<longrightarrow>
         (\<exists>md. ps_metadata (processResponse env now response metrics validationOptions) = Some md
            \<and> md_dimensions md = None
            \<and> md_quality md =
                  specTier (0 + specTimePoints (m_duration metrics)
                            + specSizePoints (m_size metrics))
            \<and> (m_size metrics = Preview \<longrightarrow>
                  0 + specTimePoints (m_duration metrics) + specSizePoints (m_size metrics) \<le> 3
                  \<and> md_quality md \<noteq> High))
         \<and> ps_warnings (processResponse env now response metrics validationOptions) =
             Some [''Could not determine image dimensions''])"
proof -
  let ?p = "processResponse env now response metrics validationOptions"
  let ?options = "mergeValidation DEFAULT_VALIDATION validationOptions"
  let ?v = "validateImageData env (orElse (gn_imageData response) []) ?options"
  have dims: "getImageDimensions env blob = None"
    using assms by (simp add: getImageDimensions_def)
  have main: "ps_success ?p \<longrightarrow>
         (\<exists>md. ps_metadata ?p = Some md
            \<and> md_dimensions md = None
            \<and> md_quality md =
                  specTier (0 + specTimePoints (m_duration metrics)
                            + specSizePoints (m_size metrics))
            \<and> (m_size metrics = Preview \<longrightarrow>
                  0 + specTimePoints (m_duration metrics) + specSizePoints (m_size metrics) \<le> 3
                  \<and> md_quality md \<noteq> High))
         \<and> ps_warnings ?p = Some [''Could not determine image dimensions'']"
  proof
    assume ok: "ps_success ?p"
    then have valid: "iv_isValid ?v"
      by (auto simp add: processResponse_def Let_def split: if_splits)
    have nodims: "iv_dimensions ?v = None"
      and warn: "iv_warnings ?v = [''Could not determine image dimensions'']"
      using validateImageData_no_window [OF assms] valid by simp_all
    have run: "gn_success response" "truthy (gn_imageData response)"
      using ok by (auto simp add: processResponse_def Let_def split: if_splits)
    have meta: "ps_metadata ?p = Some
        \<lparr>md_model = m_model metrics, md_generationTime = m_duration metrics,
         md_cost = m_cost metrics, md_size = m_size metrics,
         md_quality = assessQuality (extractMetadata now response metrics ?v) ?options,
         md_dimensions = None, md_format = ''image/jpeg'', md_timestamp = now\<rparr>"
      using run valid nodims by (simp add: processResponse_def Let_def extractMetadata_def)
    have q: "assessQuality (extractMetadata now response metrics ?v) ?options =
               specTier (0 + specTimePoints (m_duration metrics)
                         + specSizePoints (m_size metrics))"
      using nodims by (simp add: assessQuality_spec extractMetadata_def)
    have bound: "m_size metrics = Preview \<longrightarrow>
        0 + specTimePoints (m_duration metrics) + specSizePoints (m_size metrics) \<le> 3
        \<and> specTier (0 + specTimePoints (m_duration metrics)
                     + specSizePoints (m_size metrics)) \<noteq> High"
      by (simp add: specTimePoints_def specSizePoints_def specTier_def)
    have w: "ps_warnings ?p = Some [''Could not determine image dimensions'']"
      using run valid warn by (simp add: processResponse_def Let_def)
    show "(\<exists>md. ps_metadata ?p = Some md
            \<and> md_dimensions md = None
            \<and> md_quality md =
                  specTier (0 + specTimePoints (m_duration metrics)
                            + specSizePoints (m_size metrics))
            \<and> (m_size metrics = Preview \<longrightarrow>
                  0 + specTimePoints (m_duration metrics) + specSizePoints (m_size metrics) \<le> 3
                  \<and> md_quality md \<noteq> High))
         \<and> ps_warnings ?p = Some [''Could not determine image dimensions'']"
      using meta q bound w by simp
  qed
  show ?thesis using dims main by blast
qed

text \<open>A fast preview on the server: two points for the time, one for the size, \<open>medium\<close>.\<close>

theorem server_side_quality_witness:
  "\<not> e_hasWindow serverEnv
   \<and> ps_success (processResponse serverEnv 3000 generatedImage
                   (createMetrics 0 3000 ''gemini'' Preview) noValidationOptions)
   \<and> ps_warnings (processResponse serverEnv 3000 generatedImage
                   (createMetrics 0 3000 ''gemini'' Preview) noValidationOptions) =
        Some [''Could not determine image dimensions'']
   \<and> map_option md_quality
         (ps_metadata (processResponse serverEnv 3000 generatedImage
                   (createMetrics 0 3000 ''gemini'' Preview) noValidationOptions)) = Some Medium"
proof -
  let ?p = "processResponse serverEnv 3000 generatedImage
                   (createMetrics 0 3000 ''gemini'' Preview) noValidationOptions"
  have h: "\<not> e_hasWindow serverEnv"
    by (simp add: serverEnv_def)
  have valid: "iv_isValid (validateImageData serverEnv ''AQID''
              (mergeValidation DEFAULT_VALIDATION noValidationOptions))"
    by (simp add: validateImageData_def isValidBase64_def base64ToBlob_def
        getImageDimensions_def serverEnv_def mergeValidation_def
        DEFAULT_VALIDATION_def noValidationOptions_def spread_def numOr_def truthyNum_def
        Let_def)
  have ok: "ps_success ?p"
    using valid
    by (simp add: processResponse_def generatedImage_def truthy_def orElse_def Let_def)
  from server_side_quality [OF h, of "\<lparr>b_size = 3, b_type = ''image/jpeg''\<rparr>" 3000 generatedImage
      "createMetrics 0 3000 ''gemini'' Preview" noValidationOptions] ok
  obtain md where "ps_metadata ?p = Some md"
    "md_quality md = specTier (0 + specTimePoints (m_duration (createMetrics 0 3000 ''gemini'' Preview))
                            + specSizePoints (m_size (createMetrics 0 3000 ''gemini'' Preview)))"
    "ps_warnings ?p = Some [''Could not determine image dimensions'']"
    by blast
  then have "map_option md_quality (ps_metadata ?p) = Some Medium"
    "ps_warnings ?p = Some [''Could not determine image dimensions'']"
    by (simp_all add: createMetrics_def specTimePoints_def specSizePoints_def specTier_def)
  with h ok show ?thesis by blast
qed

subsection \<open>Watermark compositor\<close>

text \<open>A successful result of \<open>addWatermarkServer\<close> is the PNG output of the image library.\<close>

lemma addWatermarkServer_success:
  assumes "wr_success (addWatermarkServer env imageData options)"
  shows "\<exists>svg top left buf.
           e_sharpCompositePng env (e_fromBase64 env (stripDataUrlPrefix imageData))
             svg top left = Inr buf
           \<and> addWatermarkServer env imageData options =
               \<lparr>wr_success = True,
                wr_imageData = Some (''data:image/png;base64,'' @ e_toBase64 env buf),
                wr_error = None\<rparr>"
  using assms
  by (auto simp add: addWatermarkServer_def Let_def split: sum.splits)

text \<open>
  Claim C10. Whenever \<open>addWatermark\<close>, \<open>addPreviewWatermark\<close> or \<open>addSubtleWatermark\<close>
  succeeds, the image data of the result is \<open>data:image/png;base64,\<close> followed by the
  base64 text of a buffer that the composite-and-encode-as-PNG call of the image library
  returned for the decoded input; the media type named in the input plays no part.
\<close>

theorem watermark_output_is_png:
  "(wr_success (addWatermark env imageData options) \<longrightarrow>
      (\<exists>svg top left buf.
         e_sharpCompositePng env (e_fromBase64 env (stripDataUrlPrefix imageData))
           svg top left = Inr buf
         \<and> wr_imageData (addWatermark env imageData options) =
             Some (''data:image/png;base64,'' @ e_toBase64 env buf)))
   \<and> (wr_success (addPreviewWatermark env imageData) \<longrightarrow>
      (\<exists>svg top left buf.
         e_sharpCompositePng env (e_fromBase64 env (stripDataUrlPrefix imageData))
           svg top left = Inr buf
         \<and> wr_imageData (addPreviewWatermark env imageData) =
             Some (''data:image/png;base64,'' @ e_toBase64 env buf)))
   \<and> (wr_success (addSubtleWatermark env imageData) \<longrightarrow>
      (\<exists>svg top left buf.
         e_sharpCompositePng env (e_fromBase64 env (stripDataUrlPrefix imageData))
           svg top left = Inr buf
         \<and> wr_imageData (addSubtleWatermark env imageData) =
             Some (''data:image/png;base64,'' @ e_toBase64 env buf)))"
proof (intro conjI impI)
  assume "wr_success (addWatermark env imageData options)"
  then have "wr_success (addWatermarkServer env imageData (mergeOptions DEFAULT_OPTIONS options))"
    by (simp add: addWatermark_def)
  from addWatermarkServer_success [OF this]
  show "\<exists>svg top left buf.
         e_sharpCompositePng env (e_fromBase64 env (stripDataUrlPrefix imageData))
           svg top left = Inr buf
         \<and> wr_imageData (addWatermark env imageData options) =
             Some (''data:image/png;base64,'' @ e_toBase64 env buf)"
    by (fastforce simp add: addWatermark_def)
next
  assume "wr_success (addPreviewWatermark env imageData)"
  then show "\<exists>svg top left buf.
         e_sharpCompositePng env (e_fromBase64 env (stripDataUrlPrefix imageData))
           svg top left = Inr buf
         \<and> wr_imageData (addPreviewWatermark env imageData) =
             Some (''data:image/png;base64,'' @ e_toBase64 env buf)"
    unfolding addPreviewWatermark_def
    using addWatermarkServer_success by fastforce
next
  assume "wr_success (addSubtleWatermark env imageData)"
  then show "\<exists>svg top left buf.
         e_sharpCompositePng env (e_fromBase64 env (stripDataUrlPrefix imageData))
           svg top left = Inr buf
         \<and> wr_imageData (addSubtleWatermark env imageData) =
             Some (''data:image/png;base64,'' @ e_toBase64 env buf)"
    unfolding addSubtleWatermark_def addWatermark_def Let_def
    using addWatermarkServer_success by fastforce
qed

text \<open>The fields of \<open>serverEnv\<close>, one by one.\<close>

lemma serverEnv_fields:
  "e_nodeEnv serverEnv = Some ''production''"
  "e_DEV_MODE_SKIP_AI serverEnv = None"
  "e_now serverEnv k = 1000 * int k"
  "e_generateContent serverEnv k model prompt img =
     Inr (SdkResponse (Some [Candidate (Some (Content (Some
            [Part (Some (InlineData (Some ''AQID'')))])))]))"
  "e_hasWindow serverEnv = False"
  "e_hasFileReader serverEnv = False"
  "e_hasBuffer serverEnv = True"
  "e_fromBase64 serverEnv ''AQID'' = [1, 2, 3]"
  "e_toBase64 serverEnv [1, 2, 3] = ''AQID''"
  "e_toBase64 serverEnv [4, 5, 6] = ''BAUG''"
  "e_loadImage serverEnv blob = None"
  "e_sharpMetadata serverEnv buf = Inr \<lparr>sm_width = Some 512, sm_height = Some 512\<rparr>"
  "e_sharpCompositePng serverEnv buf svg topPx leftPx = Inr [4, 5, 6]"
  by (simp_all add: serverEnv_def)

lemma strip_jpeg_prefix: "stripDataUrlPrefix ''data:image/jpeg;base64,AQID'' = ''AQID''"
  by (simp add: stripDataUrlPrefix_def isLower_def Let_def)

text \<open>A JPEG data URL goes in, a PNG data URL comes out.\<close>

theorem watermark_output_is_png_witness:
  "wr_success (addWatermark serverEnv ''data:image/jpeg;base64,AQID'' noWatermarkOptions)
   \<and> wr_imageData (addWatermark serverEnv ''data:image/jpeg;base64,AQID'' noWatermarkOptions) =
       Some ''data:image/png;base64,BAUG''"
proof -
  have ok: "wr_success (addWatermark serverEnv ''data:image/jpeg;base64,AQID''
              noWatermarkOptions)"
    by (simp add: addWatermark_def addWatermarkServer_def strip_jpeg_prefix serverEnv_fields
        Let_def)
  from watermark_output_is_png [of serverEnv "''data:image/jpeg;base64,AQID''"
      noWatermarkOptions] ok
  obtain svg top left buf where
    "e_sharpCompositePng serverEnv
        (e_fromBase64 serverEnv (stripDataUrlPrefix ''data:image/jpeg;base64,AQID''))
        svg top left = Inr buf"
    "wr_imageData (addWatermark serverEnv ''data:image/jpeg;base64,AQID'' noWatermarkOptions) =
       Some (''data:image/png;base64,'' @ e_toBase64 serverEnv buf)"
    by blast
  then have "wr_imageData (addWatermark serverEnv ''data:image/jpeg;base64,AQID''
                noWatermarkOptions) = Some ''data:image/png;base64,BAUG''"
    by (auto simp add: serverEnv_fields)
  with ok show ?thesis by blast
qed


text \<open>
  What holds of the position: a right anchor is 20 pixels from the right edge, the
  centred anchors are at half the width, and the vertical coordinate of a bottom anchor
  is computed from the same \<open>imageSize\<close>, which \<open>addWatermarkServer\<close> and
  \<open>createWatermarkSvg\<close> set to the width.
\<close>

lemma position_of_anchor:
  "pt_x (calculateServerPosition imageSize BottomRight fontSize) = imageSize - 20"
  "pt_x (calculateServerPosition imageSize TopRight fontSize) = imageSize - 20"
  "pt_x (calculateServerPosition imageSize BottomCenter fontSize) = imageSize / 2"
  "pt_y (calculateServerPosition imageSize BottomCenter fontSize) =
     imageSize - 20 - fontSize * (12 / 10) / 2"
  "pt_y (calculateServerPosition imageSize BottomRight fontSize) =
     imageSize - 20 - fontSize * (12 / 10) / 2"
  "pt_y (calculateServerPosition imageSize TopRight fontSize) = 20 + fontSize * (12 / 10) / 2"
  by (simp_all add: calculateServerPosition_def Let_def)

text \<open>
  Claim C5 at an image 1024 wide and 512 high, bottom-center, font size 20: the overlay
  is 512 high and its text is placed at \<open>y = 992\<close>, which is \<open>1024 - 20 - 12\<close>, where the
  claim has \<open>512 - 20 - 12 = 480\<close>.
\<close>

theorem bottom_anchor_follows_width:
  "calculateServerPosition 1024 BottomCenter 20 = \<lparr>pt_x = 512, pt_y = 992\<rparr>
   \<and> sv_height (createWatermarkSvg (DEFAULT_OPTIONS\<lparr>wo_fontSize := 20\<rparr>) 1024 512) = 512
   \<and> sv_textY (createWatermarkSvg (DEFAULT_OPTIONS\<lparr>wo_fontSize := 20\<rparr>) 1024 512) = 992"
  by (simp add: calculateServerPosition_def createWatermarkSvg_def DEFAULT_OPTIONS_def Let_def)




subsection \<open>Preview endpoint\<close>

text \<open>An attempt leaves \<open>retryCount\<close> and the rate-limit table as they are.\<close>

lemma generateAttempt_frame:
  "w_retryCount (snd (generateAttempt env cfg w request startTime)) = w_retryCount w"
  "w_store (snd (generateAttempt env cfg w request startTime)) = w_store w"
  by (simp_all add: generateAttempt_def callGeminiAPI_def Let_def split: sum.splits)

text \<open>With a retry ceiling of 0, \<open>generatePortrait\<close> returns after one attempt.\<close>

lemma generatePortrait_no_retry:
  assumes "ac_maxRetries cfg = 0"
  shows "generatePortrait env cfg w request =
     Some (case fst (generateAttempt env cfg
                      (w\<lparr>w_clock := w_clock w + 1, w_retryCount := 0\<rparr>) request
                      (e_now env (w_clock w))) of
             Inr response \<Rightarrow> response
           | Inl t \<Rightarrow>
               \<lparr>gn_success = False, gn_imageUrl = None, gn_imageData = None,
                gn_error = Some (messageOr t ''Failed to generate portrait''),
                gn_cost = None, gn_generationTime = None\<rparr>,
           snd (generateAttempt env cfg
                  (w\<lparr>w_clock := w_clock w + 1, w_retryCount := 0\<rparr>) request
                  (e_now env (w_clock w))))"
  by (subst generatePortrait.simps)
     (simp add: Let_def generateAttempt_frame assms split: sum.splits)

lemma getAIConfig_maxRetries: "ac_maxRetries (getAIConfig env) = 0"
  by (simp add: getAIConfig_def)

text \<open>The handler always returns.\<close>

lemma generateForBody_returns:
  "\<exists>out. generateForBody env w startTime rateLimitResult img options prompt = Some out"
  by (simp add: generateForBody_def Let_def
      generatePortrait_no_retry [OF getAIConfig_maxRetries] split: sum.splits)

lemma POST_returns: "\<exists>out. POST env w request = Some out"
  using generateForBody_returns
  by (simp add: POST_def Let_def split: sum.splits option.splits prod.splits)


text \<open>A denied request is answered before its body is looked at.\<close>

lemma POST_denied:
  assumes "\<not> rr_allowed (fst (handlerAdmission env w request))"
  shows "POST env w request =
           Some (rateLimitedResponse (fst (handlerAdmission env w request)),
                 w\<lparr>w_store := snd (handlerAdmission env w request),
                   w_clock := w_clock w + 2\<rparr>)"
    and "snd (handlerAdmission env w request) = w_store w"
  using assms
  by (simp_all add: POST_def handlerAdmission_def Let_def checkRateLimit_def
      split: if_splits)

lemma POST_invalid_fields:
  assumes "rr_allowed (fst (handlerAdmission env w request))"
    and "rq_json request = Inr body"
    and "failsFieldValidation body"
  shows "\<exists>message. POST env w request =
           Some (errorResponse 400 message,
                 w\<lparr>w_store := snd (handlerAdmission env w request),
                   w_clock := w_clock w + 3\<rparr>)"
  using assms
  by (auto simp add: POST_def handlerAdmission_def failsFieldValidation_def Let_def
      split: option.splits)

text \<open>
  Claim C8. The handler calls \<open>checkRateLimit\<close> first: a denied request gets 429 whatever
  its body is. An admitted request whose body fails the field validation gets 400
  without a provider call, and the table it leaves is the one that the admission wrote:
  the count of an entry still in its window is one higher than before, and a client
  without an entry, or with an expired one, has an entry with count 1.
\<close>

theorem admission_is_not_rolled_back:
  "(\<not> rr_allowed (fst (handlerAdmission env w request)) \<longrightarrow>
      (\<exists>w'. POST env w request =
               Some (rateLimitedResponse (fst (handlerAdmission env w request)), w')
             \<and> w_store w' = w_store w))
   \<and> (rr_allowed (fst (handlerAdmission env w request)) \<and> rq_json request = Inr body
        \<and> failsFieldValidation body \<longrightarrow>
      (\<exists>response w'. POST env w request = Some (response, w')
         \<and> rs_status response = 400
         \<and> w_providerCalls w' = w_providerCalls w
         \<and> w_store w' = snd (handlerAdmission env w request)
         \<and> (\<forall>e. w_store w (getClientIP request) = Some e
                  \<and> e_now env (w_clock w + 1) \<le> re_resetTime e
                  \<and> e_now env (w_clock w + 2) \<le> re_resetTime e \<longrightarrow>
                w_store w' (getClientIP request) =
                  Some (e\<lparr>re_count := re_count e + 1,
                          re_lastRequest := e_now env (w_clock w + 1)\<rparr>))
         \<and> ((case w_store w (getClientIP request) of
                 None \<Rightarrow> True
               | Some e \<Rightarrow> e_now env (w_clock w + 1) > re_resetTime e)
              \<and> e_now env (w_clock w + 2)
                   \<le> e_now env (w_clock w + 1) + windowMs (e_nodeEnv env) \<longrightarrow>
                w_store w' (getClientIP request) =
                  Some \<lparr>re_count = 1,
                        re_resetTime = e_now env (w_clock w + 1) + windowMs (e_nodeEnv env),
                        re_lastRequest = e_now env (w_clock w + 1)\<rparr>)))"
proof (intro conjI impI)
  assume "\<not> rr_allowed (fst (handlerAdmission env w request))"
  from POST_denied [OF this]
  show "\<exists>w'. POST env w request =
               Some (rateLimitedResponse (fst (handlerAdmission env w request)), w')
             \<and> w_store w' = w_store w"
    by simp
next
  assume a: "rr_allowed (fst (handlerAdmission env w request)) \<and> rq_json request = Inr body
        \<and> failsFieldValidation body"
  then obtain message where post: "POST env w request =
           Some (errorResponse 400 message,
                 w\<lparr>w_store := snd (handlerAdmission env w request),
                   w_clock := w_clock w + 3\<rparr>)"
    using POST_invalid_fields by blast
  let ?w' = "w\<lparr>w_store := snd (handlerAdmission env w request), w_clock := w_clock w + 3\<rparr>"
  have old: "\<forall>e. w_store w (getClientIP request) = Some e
                  \<and> e_now env (w_clock w + 1) \<le> re_resetTime e
                  \<and> e_now env (w_clock w + 2) \<le> re_resetTime e \<longrightarrow>
                w_store ?w' (getClientIP request) =
                  Some (e\<lparr>re_count := re_count e + 1,
                          re_lastRequest := e_now env (w_clock w + 1)\<rparr>)"
  proof (intro allI impI)
    fix e
    assume e: "w_store w (getClientIP request) = Some e
                  \<and> e_now env (w_clock w + 1) \<le> re_resetTime e
                  \<and> e_now env (w_clock w + 2) \<le> re_resetTime e"
    have "re_count e < maxAttempts (e_nodeEnv env)"
      using a e by (auto simp add: handlerAdmission_def checkRateLimit_def Let_def
          split: if_splits)
    with e show "w_store ?w' (getClientIP request) =
                  Some (e\<lparr>re_count := re_count e + 1,
                          re_lastRequest := e_now env (w_clock w + 1)\<rparr>)"
      using check_allowed_step(2) [where store = "w_store w" and request = request and e = e
          and now = "e_now env (w_clock w + 1)" and nowCleanup = "e_now env (w_clock w + 2)"
          and nodeEnv = "e_nodeEnv env"]
      by (simp add: handlerAdmission_def)
  qed
  have new: "(case w_store w (getClientIP request) of
                 None \<Rightarrow> True
               | Some e \<Rightarrow> e_now env (w_clock w + 1) > re_resetTime e)
              \<and> e_now env (w_clock w + 2)
                   \<le> e_now env (w_clock w + 1) + windowMs (e_nodeEnv env) \<longrightarrow>
                w_store ?w' (getClientIP request) =
                  Some \<lparr>re_count = 1,
                        re_resetTime = e_now env (w_clock w + 1) + windowMs (e_nodeEnv env),
                        re_lastRequest = e_now env (w_clock w + 1)\<rparr>"
    using check_fresh_step(2) [where store = "w_store w" and request = request
          and now = "e_now env (w_clock w + 1)" and nowCleanup = "e_now env (w_clock w + 2)"
          and nodeEnv = "e_nodeEnv env"]
    by (simp add: handlerAdmission_def)
  show "\<exists>response w'. POST env w request = Some (response, w')
         \<and> rs_status response = 400
         \<and> w_providerCalls w' = w_providerCalls w
         \<and> w_store w' = snd (handlerAdmission env w request)
         \<and> (\<forall>e. w_store w (getClientIP request) = Some e
                  \<and> e_now env (w_clock w + 1) \<le> re_resetTime e
                  \<and> e_now env (w_clock w + 2) \<le> re_resetTime e \<longrightarrow>
                w_store w' (getClientIP request) =
                  Some (e\<lparr>re_count := re_count e + 1,
                          re_lastRequest := e_now env (w_clock w + 1)\<rparr>))
         \<and> ((case w_store w (getClientIP request) of
                 None \<Rightarrow> True
               | Some e \<Rightarrow> e_now env (w_clock w + 1) > re_resetTime e)
              \<and> e_now env (w_clock w + 2)
                   \<le> e_now env (w_clock w + 1) + windowMs (e_nodeEnv env) \<longrightarrow>
                w_store w' (getClientIP request) =
                  Some \<lparr>re_count = 1,
                        re_resetTime = e_now env (w_clock w + 1) + windowMs (e_nodeEnv env),
                        re_lastRequest = e_now env (w_clock w + 1)\<rparr>)"
    apply (rule exI [of _ "errorResponse 400 message"])
    apply (rule exI [of _ ?w'])
    using post old new by (simp add: errorResponse_def)
qed


lemma clientIP_previewRequest: "getClientIP (previewRequest body) = ''203.0.113.7''"
  by (simp add: getClientIP_def previewRequest_def truthy_def orElse_def trim_def isSpace_def)

lemma admission_fresh_server:
  "handlerAdmission serverEnv freshWorld (previewRequest body) =
     (\<lparr>rr_allowed = True, rr_remaining = 2, rr_resetTime = 86401000, rr_retryAfter = None\<rparr>,
      cleanupExpiredEntries 2000
        [''203.0.113.7'' \<mapsto> \<lparr>re_count = 1, re_resetTime = 86401000, re_lastRequest = 1000\<rparr>])"
  by (simp add: handlerAdmission_def checkRateLimit_def clientIP_previewRequest
      serverEnv_fields freshWorld_def maxAttempts_def windowMs_def isDevelopment_def
      MAX_ATTEMPTS_PER_IP_def WINDOW_MS_def Let_def)

text \<open>
  The first request of a client, with an empty body: 400, no provider call, and an entry
  with count 1 in the table.
\<close>

theorem admission_is_not_rolled_back_witness:
  "rr_allowed (fst (handlerAdmission serverEnv freshWorld (previewRequest emptyBody)))
   \<and> failsFieldValidation emptyBody
   \<and> (\<exists>response w'. POST serverEnv freshWorld (previewRequest emptyBody) = Some (response, w')
         \<and> rs_status response = 400
         \<and> w_providerCalls w' = 0
         \<and> w_store w' ''203.0.113.7'' =
             Some \<lparr>re_count = 1, re_resetTime = 86401000, re_lastRequest = 1000\<rparr>)"
proof -
  have h1: "rr_allowed (fst (handlerAdmission serverEnv freshWorld (previewRequest emptyBody)))"
    by (simp add: admission_fresh_server)
  have h2: "rq_json (previewRequest emptyBody) = Inr emptyBody"
    by (simp add: previewRequest_def)
  have h3: "failsFieldValidation emptyBody"
    by (simp add: failsFieldValidation_def emptyBody_def)
  have h4: "(case w_store freshWorld (getClientIP (previewRequest emptyBody)) of
                 None \<Rightarrow> True
               | Some e \<Rightarrow> e_now serverEnv (w_clock freshWorld + 1) > re_resetTime e)
              \<and> e_now serverEnv (w_clock freshWorld + 2)
                   \<le> e_now serverEnv (w_clock freshWorld + 1) + windowMs (e_nodeEnv serverEnv)"
    by (simp add: freshWorld_def serverEnv_fields windowMs_def isDevelopment_def WINDOW_MS_def)
  from admission_is_not_rolled_back [of serverEnv freshWorld "previewRequest emptyBody" emptyBody]
    h1 h2 h3
  obtain response w' where r:
    "POST serverEnv freshWorld (previewRequest emptyBody) = Some (response, w')"
    "rs_status response = 400"
    "w_providerCalls w' = w_providerCalls freshWorld"
    "(case w_store freshWorld (getClientIP (previewRequest emptyBody)) of
                 None \<Rightarrow> True
               | Some e \<Rightarrow> e_now serverEnv (w_clock freshWorld + 1) > re_resetTime e)
              \<and> e_now serverEnv (w_clock freshWorld + 2)
                   \<le> e_now serverEnv (w_clock freshWorld + 1) + windowMs (e_nodeEnv serverEnv) \<longrightarrow>
                w_store w' (getClientIP (previewRequest emptyBody)) =
                  Some \<lparr>re_count = 1,
                        re_resetTime = e_now serverEnv (w_clock freshWorld + 1)
                                       + windowMs (e_nodeEnv serverEnv),
                        re_lastRequest = e_now serverEnv (w_clock freshWorld + 1)\<rparr>"
    by blast
  from r(4) h4 have "w_store w' ''203.0.113.7'' =
      Some \<lparr>re_count = 1, re_resetTime = 86401000, re_lastRequest = 1000\<rparr>"
    by (simp add: clientIP_previewRequest freshWorld_def serverEnv_fields windowMs_def
        isDevelopment_def WINDOW_MS_def)
  with r(1,2,3) h1 h3 show ?thesis
    by (auto simp add: freshWorld_def)
qed

subsection \<open>From admission to delivery\<close>

text \<open>An admitted request whose five tested fields are present goes on to generation.\<close>

lemma POST_valid_fields:
  assumes "rr_allowed (fst (handlerAdmission env w request))"
    and "rq_json request = Inr body"
    and "pr_image body = Some img" and "pr_options body = Some options"
    and "truthy (ib_base64Data img)" and "truthy (ib_id img)" and "truthy (ib_type img)"
    and "truthy (co_background options)" and "truthy (co_style options)"
  shows "POST env w request =
           generateForBody env
             (w\<lparr>w_store := snd (handlerAdmission env w request), w_clock := w_clock w + 3\<rparr>)
             (e_now env (w_clock w)) (fst (handlerAdmission env w request)) img options
             (pr_prompt body)"
  using assms by (simp add: POST_def handlerAdmission_def Let_def)

text \<open>The prompt of a known style and background is built, and its context is valid.\<close>

lemma buildPrompt_known:
  assumes "STYLE_DESCRIPTIONS (orElse (co_style options) ''professional'') = Some styleDesc"
    and "BACKGROUND_DESCRIPTIONS (orElse (co_background options) ''office'') = Some bgDesc"
  shows "\<exists>promptVariations. buildPrompt options context = Inr promptVariations"
  using assms
  by (simp add: buildPrompt_def buildContext_def buildBasicPrompt_def buildDetailedPrompt_def
      buildTechnicalPrompt_def buildCreativePrompt_def Let_def)

lemma validateContext_known:
  assumes "STYLE_DESCRIPTIONS (orElse (co_style options) ''professional'') = Some styleDesc"
    and "BACKGROUND_DESCRIPTIONS (orElse (co_background options) ''office'') = Some bgDesc"
    and "INDUSTRY_CONTEXTS (orElse (co_industry options) ''general'') = Some industry"
  shows "cv_isValid (validateContext
                   \<lparr>pc_style = orElse (co_style options) ''professional'',
                    pc_background = orElse (co_background options) ''office'',
                    pc_industry = Some (orElse (co_industry options) ''general''),
                    pc_mood = None, pc_lighting = None, pc_composition = None,
                    pc_additionalRequirements = None\<rparr>)"
  using assms by (simp add: validateContext_def orElse_def truthy_def Let_def)

text \<open>
  With a valid prompt context the handler makes one generation attempt and either reports
  its failure with status 500 or goes on to deliver the preview.
\<close>

lemma generateForBody_attempt:
  assumes "STYLE_DESCRIPTIONS (orElse (co_style options) ''professional'') = Some styleDesc"
    and "BACKGROUND_DESCRIPTIONS (orElse (co_background options) ''office'') = Some bgDesc"
    and "INDUSTRY_CONTEXTS (orElse (co_industry options) ''general'') = Some industry"
  shows "\<exists>finalPrompt.
    generateForBody env w startTime rateLimitResult img options prompt =
      Some (case fst (generateAttempt env (getAIConfig env)
                        (w\<lparr>w_clock := w_clock w + 1, w_retryCount := 0\<rparr>)
                        \<lparr>gq_image = toUploadedImage img, gq_options = options,
                         gq_size = Preview, gq_prompt = Some finalPrompt\<rparr>
                        (e_now env (w_clock w))) of
              Inl t \<Rightarrow>
                (errorResponse 500
                   (orElse (Some (messageOr t ''Failed to generate portrait''))
                      ''Failed to generate preview''),
                 snd (generateAttempt env (getAIConfig env)
                        (w\<lparr>w_clock := w_clock w + 1, w_retryCount := 0\<rparr>)
                        \<lparr>gq_image = toUploadedImage img, gq_options = options,
                         gq_size = Preview, gq_prompt = Some finalPrompt\<rparr>
                        (e_now env (w_clock w))))
            | Inr generationResult \<Rightarrow>
                if \<not> gn_success generationResult \<or> \<not> truthy (gn_imageData generationResult)
                then (errorResponse 500
                        (orElse (gn_error generationResult) ''Failed to generate preview''),
                      snd (generateAttempt env (getAIConfig env)
                        (w\<lparr>w_clock := w_clock w + 1, w_retryCount := 0\<rparr>)
                        \<lparr>gq_image = toUploadedImage img, gq_options = options,
                         gq_size = Preview, gq_prompt = Some finalPrompt\<rparr>
                        (e_now env (w_clock w))))
                else deliverPreview env
                       (snd (generateAttempt env (getAIConfig env)
                        (w\<lparr>w_clock := w_clock w + 1, w_retryCount := 0\<rparr>)
                        \<lparr>gq_image = toUploadedImage img, gq_options = options,
                         gq_size = Preview, gq_prompt = Some finalPrompt\<rparr>
                        (e_now env (w_clock w))))
                       startTime rateLimitResult generationResult)"
proof -
  obtain pv where bp: "buildPrompt options
             \<lparr>pp_industry = co_industry options, pp_mood = co_mood options,
              pp_lighting = None, pp_composition = None,
              pp_additionalRequirements = co_additionalRequirements options\<rparr> = Inr pv"
    using buildPrompt_known [OF assms(1,2)] by blast
  note vc = validateContext_known [OF assms]
  show ?thesis
    apply (rule exI [of _ "if truthy prompt then Literal (orElse prompt [])
                              else pv_detailed pv"])
    apply (simp add: generateForBody_def bp vc Let_def
        generatePortrait_no_retry [OF getAIConfig_maxRetries] split: sum.splits)
    done
qed


lemma orElse_Some: "v \<noteq> [] \<Longrightarrow> orElse (Some v) d = v"
  by (simp add: orElse_def)

text \<open>One attempt outside the development mode, with the payload attached to the request.\<close>

lemma generateAttempt_provider_throws:
  assumes "\<not> devModeSkipAI env" and "truthy (ui_base64Data (gq_image request))"
    and "e_generateContent env (w_providerCalls w) (ac_model cfg)
           (serviceBuildPrompt (gq_options request) (gq_prompt request))
           (ui_base64Data (gq_image request)) = Inl t"
  shows "generateAttempt env cfg w request startTime =
           (Inl (JsError (''Failed to generate image: '' @ messageOr t ''Unknown error'')),
            w\<lparr>w_providerCalls := w_providerCalls w + 1\<rparr>)"
  using assms
  by (simp add: generateAttempt_def requestImageBase64_def callGeminiAPI_def Let_def)

lemma generateAttempt_provider_image:
  assumes "\<not> devModeSkipAI env" and "truthy (ui_base64Data (gq_image request))"
    and "e_generateContent env (w_providerCalls w) (ac_model cfg)
           (serviceBuildPrompt (gq_options request) (gq_prompt request))
           (ui_base64Data (gq_image request)) = Inr response"
    and "extractImageData response = Some imageData"
  shows "generateAttempt env cfg w request startTime =
           (Inr \<lparr>gn_success = True, gn_imageUrl = None, gn_imageData = Some imageData,
                 gn_error = None, gn_cost = Some (calculateCost (gq_size request)),
                 gn_generationTime = Some (e_now env (w_clock w) - startTime)\<rparr>,
            w\<lparr>w_providerCalls := w_providerCalls w + 1, w_clock := w_clock w + 1\<rparr>)"
  using assms
  by (simp add: generateAttempt_def requestImageBase64_def callGeminiAPI_def Let_def)

lemma generateAttempt_calls:
  assumes "\<not> devModeSkipAI env" and "truthy (ui_base64Data (gq_image request))"
  shows "w_providerCalls (snd (generateAttempt env cfg w request startTime)) =
           w_providerCalls w + 1"
  using assms
  by (simp add: generateAttempt_def requestImageBase64_def callGeminiAPI_def Let_def
      split: sum.splits)

text \<open>The delivery of a generated image: 500 or 200, no provider call, the table untouched.\<close>

lemma deliverPreview_frame:
  "w_providerCalls (snd (deliverPreview env w startTime rateLimitResult generationResult)) =
     w_providerCalls w"
  "w_store (snd (deliverPreview env w startTime rateLimitResult generationResult)) = w_store w"
  "rs_status (fst (deliverPreview env w startTime rateLimitResult generationResult)) = 200
   \<or> rs_status (fst (deliverPreview env w startTime rateLimitResult generationResult)) = 500"
  by (simp_all add: deliverPreview_def errorResponse_def Let_def)

lemma processResponse_valid:
  assumes "gn_success generationResult" and "gn_imageData generationResult = Some imageData"
    and "imageData \<noteq> []"
    and "iv_isValid (validateImageData env imageData
                      (mergeValidation DEFAULT_VALIDATION validationOptions))"
  shows "ps_success (processResponse env now generationResult metrics validationOptions)"
    and "ps_imageData (processResponse env now generationResult metrics validationOptions) =
           Some imageData"
  using assms by (simp_all add: processResponse_def truthy_def orElse_def Let_def)

lemma deliverPreview_valid:
  assumes "gn_success generationResult" and "gn_imageData generationResult = Some imageData"
    and "imageData \<noteq> []"
    and "iv_isValid (validateImageData env imageData
                      (mergeValidation DEFAULT_VALIDATION previewValidationOptions))"
  shows "rs_status (fst (deliverPreview env w startTime rateLimitResult generationResult)) = 200"
    and "rb_success (rs_body (fst (deliverPreview env w startTime rateLimitResult
                                     generationResult)))"
    and "rb_imageData (rs_body (fst (deliverPreview env w startTime rateLimitResult
                                       generationResult))) =
           Some (orElse (wr_imageData (addPreviewWatermark env imageData)) imageData)"
  using processResponse_valid [OF assms] assms(3)
  by (simp_all add: deliverPreview_def truthy_def orElse_Some Let_def)




lemma extractImageData_nonempty:
  "extractImageData response = Some imageData \<Longrightarrow> imageData \<noteq> []"
  by (induction response rule: extractImageData.induct)
     (auto split: option.splits Part.splits InlineData.splits if_splits)

text \<open>
  An accepted request is answered after exactly one generation attempt, made in the
  state that the admission and the clock readings have left.
\<close>

lemma POST_accepted:
  assumes "acceptedRequest env w request img options"
  shows "\<exists>finalPrompt.
    POST env w request =
      Some (case fst (handlerAttempt env w request img options finalPrompt) of
              Inl t \<Rightarrow>
                (errorResponse 500
                   (orElse (Some (messageOr t ''Failed to generate portrait''))
                      ''Failed to generate preview''),
                 snd (handlerAttempt env w request img options finalPrompt))
            | Inr generationResult \<Rightarrow>
                if \<not> gn_success generationResult \<or> \<not> truthy (gn_imageData generationResult)
                then (errorResponse 500
                        (orElse (gn_error generationResult) ''Failed to generate preview''),
                      snd (handlerAttempt env w request img options finalPrompt))
                else deliverPreview env
                       (snd (handlerAttempt env w request img options finalPrompt))
                       (e_now env (w_clock w)) (fst (handlerAdmission env w request))
                       generationResult)"
proof -
  from assms obtain body where body: "rq_json request = Inr body" "pr_image body = Some img"
    "pr_options body = Some options"
    by (auto simp add: acceptedRequest_def)
  from assms obtain styleDesc bgDesc industry where known:
    "STYLE_DESCRIPTIONS (orElse (co_style options) ''professional'') = Some styleDesc"
    "BACKGROUND_DESCRIPTIONS (orElse (co_background options) ''office'') = Some bgDesc"
    "INDUSTRY_CONTEXTS (orElse (co_industry options) ''general'') = Some industry"
    by (auto simp add: acceptedRequest_def)
  have post: "POST env w request =
      generateForBody env (admittedWorld env w request)
        (e_now env (w_clock w)) (fst (handlerAdmission env w request)) img options
        (pr_prompt body)"
    unfolding admittedWorld_def
    using assms body by (intro POST_valid_fields) (simp_all add: acceptedRequest_def)
  from generateForBody_attempt [OF known, of env "admittedWorld env w request"
        "e_now env (w_clock w)" "fst (handlerAdmission env w request)" img "pr_prompt body"]
  show ?thesis
    unfolding post handlerAttempt_def by blast
qed


lemma handlerAttempt_calls:
  assumes "acceptedRequest env w request img options"
  shows "w_providerCalls (snd (handlerAttempt env w request img options finalPrompt)) =
           w_providerCalls w + 1"
  using assms generateAttempt_calls [of env
      "\<lparr>gq_image = toUploadedImage img, gq_options = options, gq_size = Preview,
        gq_prompt = Some finalPrompt\<rparr>"]
  by (simp add: handlerAttempt_def admittedWorld_def acceptedRequest_def toUploadedImage_def)

text \<open>The provider throws: status 500, and the text of the error is passed on.\<close>

lemma POST_provider_error:
  assumes acc: "acceptedRequest env w request img options"
    and fails: "\<forall>model prompt payload.
                 e_generateContent env (w_providerCalls w) model prompt payload = Inl t"
  shows "\<exists>w'. POST env w request =
                 Some (errorResponse 500
                         (''Failed to generate image: '' @ messageOr t ''Unknown error''), w')
               \<and> w_providerCalls w' = w_providerCalls w + 1"
proof -
  from POST_accepted [OF acc] obtain finalPrompt where post:
    "POST env w request =
      Some (case fst (handlerAttempt env w request img options finalPrompt) of
              Inl t \<Rightarrow>
                (errorResponse 500
                   (orElse (Some (messageOr t ''Failed to generate portrait''))
                      ''Failed to generate preview''),
                 snd (handlerAttempt env w request img options finalPrompt))
            | Inr generationResult \<Rightarrow>
                if \<not> gn_success generationResult \<or> \<not> truthy (gn_imageData generationResult)
                then (errorResponse 500
                        (orElse (gn_error generationResult) ''Failed to generate preview''),
                      snd (handlerAttempt env w request img options finalPrompt))
                else deliverPreview env
                       (snd (handlerAttempt env w request img options finalPrompt))
                       (e_now env (w_clock w)) (fst (handlerAdmission env w request))
                       generationResult)"
    by blast
  have att: "fst (handlerAttempt env w request img options finalPrompt) =
      Inl (JsError (''Failed to generate image: '' @ messageOr t ''Unknown error''))"
    unfolding handlerAttempt_def
    using acc fails
    by (subst generateAttempt_provider_throws [where t = t])
       (simp_all add: acceptedRequest_def toUploadedImage_def admittedWorld_def)
  show ?thesis
    using post att handlerAttempt_calls [OF acc, of finalPrompt]
    by (simp add: messageOr_def orElse_def)
qed

text \<open>
  The provider returns an image that passes validation: status 200, and the image data
  of the response is the watermarked image if there is one, else the processed image.
\<close>

lemma POST_delivers:
  assumes acc: "acceptedRequest env w request img options"
    and returns: "\<forall>model prompt payload.
                 e_generateContent env (w_providerCalls w) model prompt payload = Inr response"
    and found: "extractImageData response = Some imageData"
    and valid: "iv_isValid (validateImageData env imageData
                  (mergeValidation DEFAULT_VALIDATION previewValidationOptions))"
  shows "\<exists>result w'. POST env w request = Some (result, w')
           \<and> rs_status result = 200 \<and> rb_success (rs_body result)
           \<and> rb_imageData (rs_body result) =
               Some (orElse (wr_imageData (addPreviewWatermark env imageData)) imageData)
           \<and> w_providerCalls w' = w_providerCalls w + 1"
proof -
  from POST_accepted [OF acc] obtain finalPrompt where post:
    "POST env w request =
      Some (case fst (handlerAttempt env w request img options finalPrompt) of
              Inl t \<Rightarrow>
                (errorResponse 500
                   (orElse (Some (messageOr t ''Failed to generate portrait''))
                      ''Failed to generate preview''),
                 snd (handlerAttempt env w request img options finalPrompt))
            | Inr generationResult \<Rightarrow>
                if \<not> gn_success generationResult \<or> \<not> truthy (gn_imageData generationResult)
                then (errorResponse 500
                        (orElse (gn_error generationResult) ''Failed to generate preview''),
                      snd (handlerAttempt env w request img options finalPrompt))
                else deliverPreview env
                       (snd (handlerAttempt env w request img options finalPrompt))
                       (e_now env (w_clock w)) (fst (handlerAdmission env w request))
                       generationResult)"
    by blast
  let ?att = "handlerAttempt env w request img options finalPrompt"
  have ne: "imageData \<noteq> []"
    using found by (rule extractImageData_nonempty)
  obtain gen where att: "fst ?att = Inr gen" and gen: "gn_success gen"
    "gn_imageData gen = Some imageData"
    unfolding handlerAttempt_def
    using acc returns found
    by (subst (asm) generateAttempt_provider_image
          [where response = response and imageData = imageData])
       (simp_all add: acceptedRequest_def toUploadedImage_def admittedWorld_def)
  let ?d = "deliverPreview env (snd ?att) (e_now env (w_clock w))
              (fst (handlerAdmission env w request)) gen"
  have post': "POST env w request = Some ?d"
    using post att gen ne by (simp add: truthy_def)
  note d = deliverPreview_valid [OF gen ne valid, of "snd ?att" "e_now env (w_clock w)"
      "fst (handlerAdmission env w request)"]
  have calls: "w_providerCalls (snd ?d) = w_providerCalls w + 1"
    using deliverPreview_frame(1) handlerAttempt_calls [OF acc, of finalPrompt] by simp
  show ?thesis
    apply (rule exI [of _ "fst ?d"])
    apply (rule exI [of _ "snd ?d"])
    using post' d calls by simp
qed


text \<open>The concrete requests are accepted by a production server at its first three clock readings.\<close>

lemma accepted_fresh:
  assumes "e_nodeEnv env = Some ''production''" and "e_DEV_MODE_SKIP_AI env = None"
    and "e_now env 1 = 1000" and "e_now env 2 = 2000"
  shows "acceptedRequest env freshWorld (previewRequest validBody) validImage officeOptions"
    and "acceptedRequest env freshWorld (previewRequest smallImageBody) smallImage officeOptions"
  using assms
  by (simp_all add: acceptedRequest_def handlerAdmission_def checkRateLimit_def
      clientIP_previewRequest freshWorld_def maxAttempts_def windowMs_def isDevelopment_def
      MAX_ATTEMPTS_PER_IP_def WINDOW_MS_def devModeSkipAI_def Let_def
      previewRequest_def validBody_def smallImageBody_def validImage_def smallImage_def
      officeOptions_def truthy_def orElse_def STYLE_DESCRIPTIONS_def
      BACKGROUND_DESCRIPTIONS_def INDUSTRY_CONTEXTS_def)

lemma valid_on_server:
  assumes "e_hasBuffer env" and "\<not> e_hasWindow env"
    and "e_fromBase64 env ''AQID'' = [1, 2, 3]" and "e_toBase64 env [1, 2, 3] = ''AQID''"
  shows "iv_isValid (validateImageData env ''AQID''
           (mergeValidation DEFAULT_VALIDATION previewValidationOptions))"
  using assms
  by (simp add: validateImageData_def isValidBase64_def base64ToBlob_def
      getImageDimensions_def mergeValidation_def DEFAULT_VALIDATION_def
      previewValidationOptions_def spread_def numOr_def Let_def)

subsection \<open>Claim C6\<close>

text \<open>
  Claim C6, as the code has it. When the provider call of an accepted request throws an
  error with the message \<open>m\<close> (the retry ceiling of the configuration is 0), the endpoint
  returns 500 after that one call, and the error text of the response is
  \<open>Failed to generate image: m\<close>: the message of the exception that the generation client
  caught, with the provider's own text in it.
\<close>

theorem provider_error_text_reaches_caller:
  "acceptedRequest env w request img options
   \<and> (\<forall>model prompt payload.
         e_generateContent env (w_providerCalls w) model prompt payload = Inl (JsError m))
   \<longrightarrow> ac_maxRetries (getAIConfig env) = 0
       \<and> (\<exists>w'. POST env w request =
                  Some (errorResponse 500 (''Failed to generate image: '' @ m), w')
                \<and> w_providerCalls w' = w_providerCalls w + 1)"
proof
  assume a: "acceptedRequest env w request img options
   \<and> (\<forall>model prompt payload.
         e_generateContent env (w_providerCalls w) model prompt payload = Inl (JsError m))"
  from POST_provider_error [of env w request img options "JsError m"] a
  show "ac_maxRetries (getAIConfig env) = 0
       \<and> (\<exists>w'. POST env w request =
                  Some (errorResponse 500 (''Failed to generate image: '' @ m), w')
                \<and> w_providerCalls w' = w_providerCalls w + 1)"
    by (simp add: messageOr_def getAIConfig_maxRetries)
qed

text \<open>
  The provider says \<open>quota exceeded\<close>: the caller reads
  \<open>Failed to generate image: quota exceeded\<close>, while \<open>ErrorUtils\<close> classifies the error as
  \<open>QUOTA_EXCEEDED\<close>, retryable, and has another message for the user.
\<close>

theorem provider_error_text_reaches_caller_witness:
  "map_option fst (POST quotaEnv freshWorld (previewRequest validBody)) =
     Some (errorResponse 500 ''Failed to generate image: quota exceeded'')
   \<and> pe_code (parseAIError (Some ''quota exceeded'')) = ''QUOTA_EXCEEDED''
   \<and> pe_retryable (parseAIError (Some ''quota exceeded''))
   \<and> getUserFriendlyMessage (Some ''quota exceeded'') =
       ''The AI service is temporarily unavailable. Please try again in a few minutes.''"
proof -
  have acc: "acceptedRequest quotaEnv freshWorld (previewRequest validBody) validImage
               officeOptions"
    by (rule accepted_fresh) (simp_all add: quotaEnv_def serverEnv_fields)
  have fails: "\<forall>model prompt payload.
         e_generateContent quotaEnv (w_providerCalls freshWorld) model prompt payload =
           Inl (JsError ''quota exceeded'')"
    by (simp add: quotaEnv_def)
  from provider_error_text_reaches_caller [of quotaEnv freshWorld "previewRequest validBody"
      validImage officeOptions "''quota exceeded''"] acc fails
  have post: "map_option fst (POST quotaEnv freshWorld (previewRequest validBody)) =
     Some (errorResponse 500 ''Failed to generate image: quota exceeded'')"
    by auto
  have parsed: "pe_code (parseAIError (Some ''quota exceeded'')) = ''QUOTA_EXCEEDED''"
    "pe_retryable (parseAIError (Some ''quota exceeded''))"
    by (simp_all add: parseAIError_def messageIncludes_def)
  have friendly: "getUserFriendlyMessage (Some ''quota exceeded'') =
       ''The AI service is temporarily unavailable. Please try again in a few minutes.''"
    by (simp add: getUserFriendlyMessage_def parsed userMessages_def orElse_def)
  show ?thesis using post parsed friendly by blast
qed

subsection \<open>Claim C2\<close>

text \<open>
  Claim C2, as the code has it. The handler never reads the dimensions of the uploaded
  image: an accepted request whose image is narrower or lower than 512 pixels, which
  \<open>validateImageForAI\<close> rejects, is not answered with 400, and the provider is called
  once for it.
\<close>

theorem small_image_reaches_provider:
  "acceptedRequest env w request img options
   \<and> (d_width (ib_dimensions img) < PREVIEW_SIZE \<or> d_height (ib_dimensions img) < PREVIEW_SIZE)
   \<longrightarrow> \<not> vr_isValid (validateImageForAI (toUploadedImage img))
       \<and> (\<exists>response w'. POST env w request = Some (response, w')
             \<and> rs_status response \<noteq> 400
             \<and> w_providerCalls w' = w_providerCalls w + 1)"
proof
  assume a: "acceptedRequest env w request img options
   \<and> (d_width (ib_dimensions img) < PREVIEW_SIZE \<or> d_height (ib_dimensions img) < PREVIEW_SIZE)"
  then have acc: "acceptedRequest env w request img options" by simp
  have invalid: "\<not> vr_isValid (validateImageForAI (toUploadedImage img))"
    using a by (auto simp add: validateImageForAI_def toUploadedImage_def Let_def)
  from POST_accepted [OF acc] obtain finalPrompt where post:
    "POST env w request =
      Some (case fst (handlerAttempt env w request img options finalPrompt) of
              Inl t \<Rightarrow>
                (errorResponse 500
                   (orElse (Some (messageOr t ''Failed to generate portrait''))
                      ''Failed to generate preview''),
                 snd (handlerAttempt env w request img options finalPrompt))
            | Inr generationResult \<Rightarrow>
                if \<not> gn_success generationResult \<or> \<not> truthy (gn_imageData generationResult)
                then (errorResponse 500
                        (orElse (gn_error generationResult) ''Failed to generate preview''),
                      snd (handlerAttempt env w request img options finalPrompt))
                else deliverPreview env
                       (snd (handlerAttempt env w request img options finalPrompt))
                       (e_now env (w_clock w)) (fst (handlerAdmission env w request))
                       generationResult)"
    by blast
  note calls = handlerAttempt_calls [OF acc, of finalPrompt]
  have "\<exists>response w'. POST env w request = Some (response, w')
             \<and> rs_status response \<noteq> 400
             \<and> w_providerCalls w' = w_providerCalls w + 1"
  proof (cases "fst (handlerAttempt env w request img options finalPrompt)")
    case (Inl t)
    with post calls show ?thesis by (simp add: errorResponse_def)
  next
    case (Inr gen)
    show ?thesis
    proof (cases "\<not> gn_success gen \<or> \<not> truthy (gn_imageData gen)")
      case True
      with post calls Inr show ?thesis by (simp add: errorResponse_def)
    next
      case False
      let ?d = "deliverPreview env (snd (handlerAttempt env w request img options finalPrompt))
                  (e_now env (w_clock w)) (fst (handlerAdmission env w request)) gen"
      have "POST env w request = Some (fst ?d, snd ?d)"
        using post Inr False by simp
      moreover have "rs_status (fst ?d) \<noteq> 400"
        using deliverPreview_frame(3) [of env
            "snd (handlerAttempt env w request img options finalPrompt)"
            "e_now env (w_clock w)" "fst (handlerAdmission env w request)" gen]
        by auto
      moreover have "w_providerCalls (snd ?d) = w_providerCalls w + 1"
        using deliverPreview_frame(1) calls by simp
      ultimately show ?thesis by blast
    qed
  qed
  with invalid show "\<not> vr_isValid (validateImageForAI (toUploadedImage img))
       \<and> (\<exists>response w'. POST env w request = Some (response, w')
             \<and> rs_status response \<noteq> 400
             \<and> w_providerCalls w' = w_providerCalls w + 1)"
    by blast
qed

lemma server_response_image:
  "extractImageData (SdkResponse (Some [Candidate (Some (Content (Some
      [Part (Some (InlineData (Some ''AQID'')))])))])) = Some ''AQID''"
  by simp

text \<open>A 256 by 256 image on the server: one provider call, and the answer is 200.\<close>

theorem small_image_reaches_provider_witness:
  "\<not> vr_isValid (validateImageForAI (toUploadedImage smallImage))
   \<and> map_option (w_providerCalls \<circ> snd)
        (POST serverEnv freshWorld (previewRequest smallImageBody)) = Some 1
   \<and> map_option (rs_status \<circ> fst)
        (POST serverEnv freshWorld (previewRequest smallImageBody)) = Some 200"
proof -
  have acc: "acceptedRequest serverEnv freshWorld (previewRequest smallImageBody) smallImage
               officeOptions"
    by (rule accepted_fresh) (simp_all add: serverEnv_fields)
  have small: "d_width (ib_dimensions smallImage) < PREVIEW_SIZE
               \<or> d_height (ib_dimensions smallImage) < PREVIEW_SIZE"
    by (simp add: smallImage_def PREVIEW_SIZE_def)
  from small_image_reaches_provider [of serverEnv freshWorld "previewRequest smallImageBody"
      smallImage officeOptions] acc small
  have a: "\<not> vr_isValid (validateImageForAI (toUploadedImage smallImage))"
    "map_option (w_providerCalls \<circ> snd)
        (POST serverEnv freshWorld (previewRequest smallImageBody)) = Some 1"
    by (auto simp add: freshWorld_def)
  have valid: "iv_isValid (validateImageData serverEnv ''AQID''
           (mergeValidation DEFAULT_VALIDATION previewValidationOptions))"
    by (rule valid_on_server) (simp_all add: serverEnv_def)
  from POST_delivers [OF acc _ server_response_image valid]
  have b: "map_option (rs_status \<circ> fst)
        (POST serverEnv freshWorld (previewRequest smallImageBody)) = Some 200"
    by (auto simp add: serverEnv_fields)
  show ?thesis using a b by blast
qed

subsection \<open>Claim C1\<close>




end
